theory Spec2Isabelle
  imports Complex_Main "HOL-Library.Multiset"
begin

section \<open>Statistics engine\<close>

text \<open>
  JavaScript numbers are modelled as real numbers: sums, quotients and square roots are
  the exact ones, there is no rounding, no NaN and no infinity.  The source divides by
  \<open>arr.length\<close>, which yields NaN on an empty array; HOL's division by zero yields
  \<open>0\<close> instead, so every statement about \<open>mean\<close>, \<open>variance\<close>, \<open>stdDev\<close>,
  \<open>getMean\<close> and \<open>getStdDev\<close> below is restricted to non-empty arrays, as all call
  sites in the source are (they are guarded by \<open>length > 0\<close>).
\<close>

subsection \<open>The helpers local to \<open>BenchmarkHarness.calculateStatistics\<close>\<close>

text \<open>\<^verbatim>\<open>const sum = arr => arr.reduce((a, b) => a + b, 0);\<close>\<close>

definition sum_arr :: "real list \<Rightarrow> real" where
  "sum_arr arr = foldl (\<lambda>a b. a + b) 0 arr"

text \<open>\<^verbatim>\<open>const mean = arr => sum(arr) / arr.length;\<close>\<close>

definition mean :: "real list \<Rightarrow> real" where
  "mean arr = sum_arr arr / real (length arr)"

text \<open>\<^verbatim>\<open>const variance = (arr, m) =>
    arr.reduce((acc, val) => acc + Math.pow(val - m, 2), 0) / arr.length;\<close>\<close>

definition variance :: "real list \<Rightarrow> real \<Rightarrow> real" where
  "variance arr m = foldl (\<lambda>acc val. acc + (val - m) ^ 2) 0 arr / real (length arr)"

text \<open>\<^verbatim>\<open>const stdDev = arr => Math.sqrt(variance(arr, mean(arr)));\<close>\<close>

definition stdDev :: "real list \<Rightarrow> real" where
  "stdDev arr = sqrt (variance arr (mean arr))"

text \<open>
  \<^verbatim>\<open>const p95 = arr => {
      const sorted = [...arr].sort((a, b) => a - b);
      const idx = Math.floor(sorted.length * 0.95);
      return sorted[idx];
  };\<close>
  The comparator \<open>a - b\<close> sorts numerically ascending, so the copy is \<open>sort arr\<close>.
  The product \<open>sorted.length * 0.95\<close> is taken as the exact one.
  Reading a JavaScript array out of range gives \<open>undefined\<close>: that is \<open>None\<close> here.
\<close>

definition p95 :: "real list \<Rightarrow> real option" where
  "p95 arr =
     (let sorted = sort arr;
          idx = nat \<lfloor>real (length sorted) * 0.95\<rfloor>
      in if idx < length sorted then Some (sorted ! idx) else None)"

subsection \<open>The helpers of the sweep runner (\<open>automation/runner.js\<close>)\<close>

text \<open>\<^verbatim>\<open>const getMean = arr => arr.reduce((a, b) => a + b, 0) / arr.length;\<close>\<close>

definition getMean :: "real list \<Rightarrow> real" where
  "getMean arr = foldl (\<lambda>a b. a + b) 0 arr / real (length arr)"

text \<open>\<^verbatim>\<open>const getStdDev = (arr, mean) =>
    Math.sqrt(arr.reduce((sq, n) => sq + Math.pow(n - mean, 2), 0) / arr.length);\<close>\<close>

definition getStdDev :: "real list \<Rightarrow> real \<Rightarrow> real" where
  "getStdDev arr m = sqrt (foldl (\<lambda>sq n. sq + (n - m) ^ 2) 0 arr / real (length arr))"

text \<open>\<^verbatim>\<open>const getP95 = arr => {
    const sorted = [...arr].sort((a, b) => a - b);
    return sorted[Math.floor(sorted.length * 0.95)];
};\<close>\<close>

definition getP95 :: "real list \<Rightarrow> real option" where
  "getP95 arr =
     (let sorted = sort arr;
          idx = nat \<lfloor>real (length sorted) * 0.95\<rfloor>
      in if idx < length sorted then Some (sorted ! idx) else None)"

section \<open>The timing harness with a warm-up phase\<close>

text \<open>
  The class \<open>BenchmarkHarness\<close> that owns the flags \<open>isWarmingUp\<close> and
  \<open>isComplete\<close>.  Its mutable fields become a record that every method takes and
  returns.  The clock \<open>performance.now()\<close> is an input: each call of a method carries
  the readings the method takes.  Times are milliseconds.
\<close>

subsection \<open>State\<close>

text \<open>
  \<open>this.results\<close>, as \<open>resetResults\<close> creates it.  \<open>p95FrameTime\<close> is an option
  because \<open>p95\<close> may hand back \<open>undefined\<close>.
\<close>

record results =
  frames :: "real list"
  cpuTimes :: "real list"
  gpuTimes :: "real list"
  totalTime :: real
  fps :: real
  initTime :: real
  meanFrameTime :: real
  stdFrameTime :: real
  p95FrameTime :: "real option"
  meanCpuTime :: real
  meanGpuTime :: real

text \<open>
  The fields of the harness, followed by the part of the page it writes to:
  \<^item> \<open>cpuStartMark\<close>: the time of the latest performance mark \<open>frame-cpu-start\<close>, if
    one is set;
  \<^item> \<open>uiStatus\<close>, \<open>uiFps\<close>, \<open>uiFrameTime\<close>: what the three display elements show (the
    numbers before \<open>toFixed\<close> formats them);
  \<^item> \<open>publishedResults\<close>: whether \<open>window.__BENCHMARK_RESULTS__\<close> has been assigned.
    The assigned object is \<open>this.results\<close> itself, so the published value is
    \<open>results\<close> of the same state;
  \<^item> \<open>completionSignals\<close>: how many \<open>benchmark-complete\<close> events have been dispatched
    (their detail is again \<open>this.results\<close>);
  \<^item> \<open>benchmarkError\<close>: \<open>window.__BENCHMARK_ERROR__\<close>, and \<open>errorOverlay\<close>: the text of
    the error overlay once it is shown.
  The GPU query set and its two buffers are objects of the device and are left out; only
  the flag \<open>gpuSupportTimestamp\<close> decides what the harness does.
\<close>

record harness =
  results :: results
  warmupDuration :: real
  targetDuration :: real
  durationMode :: string
  targetFrames :: int
  initialized :: bool
  isWarmingUp :: bool
  isComplete :: bool
  initStartTime :: real
  startTime :: real
  lastFrameTime :: real
  activeFrameCount :: nat
  warmupFrameCount :: nat
  gpuSupportTimestamp :: bool
  uiAccumulator :: real
  uiFrameCount :: nat
  cpuStartMark :: "real option"
  uiStatus :: string
  uiFps :: "real option"
  uiFrameTime :: "real option"
  publishedResults :: bool
  completionSignals :: nat
  benchmarkError :: "string option"
  errorOverlay :: "string option"

definition resetResults :: results where
  "resetResults =
     \<lparr>frames = [], cpuTimes = [], gpuTimes = [], totalTime = 0, fps = 0, initTime = 0,
      meanFrameTime = 0, stdFrameTime = 0, p95FrameTime = Some 0, meanCpuTime = 0,
      meanGpuTime = 0\<rparr>"

text \<open>The constructor.  The display elements start with whatever the page shows: empty here.\<close>

definition new_harness :: harness where
  "new_harness =
     \<lparr>results = resetResults,
      warmupDuration = 1000,
      targetDuration = 3,
      durationMode = ''time'',
      targetFrames = 120,
      initialized = False,
      isWarmingUp = True,
      isComplete = False,
      initStartTime = 0,
      startTime = 0,
      lastFrameTime = 0,
      activeFrameCount = 0,
      warmupFrameCount = 0,
      gpuSupportTimestamp = False,
      uiAccumulator = 0,
      uiFrameCount = 0,
      cpuStartMark = None,
      uiStatus = [],
      uiFps = None,
      uiFrameTime = None,
      publishedResults = False,
      completionSignals = 0,
      benchmarkError = None,
      errorOverlay = None\<rparr>"

subsection \<open>Timers and capability negotiation\<close>

definition startInitTimer :: "harness \<Rightarrow> real \<Rightarrow> harness" where
  "startInitTimer h now = h\<lparr>initStartTime := now\<rparr>"

text \<open>\<open>endInitTimer\<close> reads the clock twice: \<open>now1\<close> for \<open>initTime\<close>, \<open>now2\<close> for \<open>startTime\<close>.\<close>

definition endInitTimer :: "harness \<Rightarrow> real \<Rightarrow> real \<Rightarrow> harness" where
  "endInitTimer h now1 now2 =
     h\<lparr>results := (results h)\<lparr>initTime := now1 - initStartTime h\<rparr>,
       initialized := True,
       startTime := now2,
       lastFrameTime := now2,
       uiStatus := ''Warming Up...''\<rparr>"

text \<open>
  \<open>initWebGPUTimestamps(device)\<close>: \<open>hasTimestampQuery\<close> is
  \<open>device.features.has('timestamp-query')\<close>.
\<close>

definition initWebGPUTimestamps :: "harness \<Rightarrow> bool \<Rightarrow> harness" where
  "initWebGPUTimestamps h hasTimestampQuery =
     (if hasTimestampQuery then h\<lparr>gpuSupportTimestamp := True\<rparr>
      else h\<lparr>gpuSupportTimestamp := False\<rparr>)"

subsection \<open>GPU timestamps\<close>

text \<open>
  The command encoder is the list of the commands recorded into it so far; the two
  marker methods change nothing but the encoder.
\<close>

datatype gpu_command =
    WriteTimestamp nat
  | ResolveQuerySet
  | CopyBufferToBuffer

definition beginGPUTimestamp :: "harness \<Rightarrow> gpu_command list \<Rightarrow> gpu_command list" where
  "beginGPUTimestamp h commandEncoder =
     (if \<not> gpuSupportTimestamp h \<or> isWarmingUp h \<or> isComplete h then commandEncoder
      else commandEncoder @ [WriteTimestamp 0])"

definition endGPUTimestamp :: "harness \<Rightarrow> gpu_command list \<Rightarrow> gpu_command list" where
  "endGPUTimestamp h commandEncoder =
     (if \<not> gpuSupportTimestamp h \<or> isWarmingUp h \<or> isComplete h then commandEncoder
      else commandEncoder @ [WriteTimestamp 1, ResolveQuerySet, CopyBufferToBuffer])"

text \<open>
  \<open>resolveGPUTimestamp\<close>: \<open>tsStart\<close> and \<open>tsEnd\<close> are the two timestamps read from the
  mapped buffer, after their conversion to numbers (nanoseconds).  The result is the new
  state and the returned value.  The method is taken as one step: the guard and the
  \<open>push\<close> are separated by an \<open>await\<close> in the source, and the render loop awaits the
  returned promise before it calls the harness again.
\<close>

definition resolveGPUTimestamp :: "harness \<Rightarrow> real \<Rightarrow> real \<Rightarrow> harness \<times> real" where
  "resolveGPUTimestamp h tsStart tsEnd =
     (if \<not> gpuSupportTimestamp h \<or> isWarmingUp h \<or> isComplete h then (h, - 1)
      else
        let durationMs = (tsEnd - tsStart) / 1000000 in
        (if durationMs \<ge> 0
         then h\<lparr>results := (results h)\<lparr>gpuTimes := gpuTimes (results h) @ [durationMs]\<rparr>\<rparr>
         else h,
         durationMs))"

subsection \<open>Per-frame API\<close>

text \<open>
  \<open>startFrame\<close>: \<open>now\<close> is its clock reading, \<open>markTime\<close> the time at which the mark
  \<open>frame-cpu-start\<close> is placed.
\<close>

definition startFrame :: "harness \<Rightarrow> real \<Rightarrow> real \<Rightarrow> harness" where
  "startFrame h now markTime =
     (if isComplete h then h
      else if isWarmingUp h then
        (if now - startTime h > warmupDuration h
         then h\<lparr>isWarmingUp := False,
                startTime := now,
                lastFrameTime := now,
                uiStatus := ''Recording'',
                activeFrameCount := 0,
                cpuStartMark := Some markTime\<rparr>
         else h\<lparr>warmupFrameCount := warmupFrameCount h + 1\<rparr>)
      else h\<lparr>cpuStartMark := Some markTime\<rparr>)"

text \<open>\<open>calculateStatistics\<close>, on the results object.\<close>

definition calculateStatistics :: "results \<Rightarrow> results" where
  "calculateStatistics r =
     (let r1 = (if length (frames r) > 0
                then (let r' = r\<lparr>meanFrameTime := mean (frames r),
                                  stdFrameTime := stdDev (frames r),
                                  p95FrameTime := p95 (frames r)\<rparr>
                      in r'\<lparr>fps := 1000 / meanFrameTime r'\<rparr>)
                else r);
          r2 = (if length (cpuTimes r1) > 0
                then r1\<lparr>meanCpuTime := mean (cpuTimes r1)\<rparr> else r1);
          r3 = (if length (gpuTimes r2) > 0
                then r2\<lparr>meanGpuTime := mean (gpuTimes r2)\<rparr> else r2)
      in r3)"

definition finalizeResults :: "harness \<Rightarrow> real \<Rightarrow> harness" where
  "finalizeResults h now =
     (let h1 = h\<lparr>results := (results h)\<lparr>totalTime := now - startTime h\<rparr>\<rparr>;
          h2 = h1\<lparr>results := calculateStatistics (results h1)\<rparr>
      in h2\<lparr>uiStatus := ''Complete'',
            publishedResults := True,
            completionSignals := completionSignals h2 + 1\<rparr>)"

definition checkCompletion :: "harness \<Rightarrow> real \<Rightarrow> harness" where
  "checkCompletion h now =
     (let complete =
            (if durationMode h = ''time'' then now - startTime h > targetDuration h * 1000
             else if durationMode h = ''frames'' then int (activeFrameCount h) \<ge> targetFrames h
             else False)
      in if complete then finalizeResults (h\<lparr>isComplete := True\<rparr>) now else h)"

text \<open>The value \<open>checkCompletion\<close> computes for its local variable \<open>complete\<close>.\<close>

definition stop_condition :: "harness \<Rightarrow> real \<Rightarrow> bool" where
  "stop_condition h now \<longleftrightarrow>
     (durationMode h = ''time'' \<and> now - startTime h > targetDuration h * 1000)
   \<or> (durationMode h = ''frames'' \<and> int (activeFrameCount h) \<ge> targetFrames h)"

text \<open>
  \<open>endFrame\<close>: \<open>markTime\<close> is the time of the mark \<open>frame-cpu-end\<close>, \<open>now\<close> the clock
  reading (the only one on the early return).  \<open>performance.measure\<close> throws when the
  start mark is missing and the \<open>catch\<close> leaves \<open>cpuTime\<close> at \<open>0\<close>; afterwards both
  marks are cleared.
\<close>

definition endFrame :: "harness \<Rightarrow> real \<Rightarrow> real \<Rightarrow> harness" where
  "endFrame h markTime now =
     (if isComplete h \<or> isWarmingUp h then h\<lparr>lastFrameTime := now\<rparr>
      else
        let cpuTime = (case cpuStartMark h of Some s \<Rightarrow> markTime - s | None \<Rightarrow> 0);
            h1 = h\<lparr>cpuStartMark := None\<rparr>;
            duration = now - lastFrameTime h1;
            h2 = h1\<lparr>results := (results h1)\<lparr>frames := frames (results h1) @ [duration],
                                              cpuTimes := cpuTimes (results h1) @ [cpuTime]\<rparr>\<rparr>;
            h3 = h2\<lparr>lastFrameTime := now, activeFrameCount := activeFrameCount h2 + 1\<rparr>;
            h4 = h3\<lparr>uiAccumulator := uiAccumulator h3 + duration,
                    uiFrameCount := uiFrameCount h3 + 1\<rparr>;
            h5 = (if uiFrameCount h4 \<ge> 10
                  then (let avgFrameTime = uiAccumulator h4 / real (uiFrameCount h4);
                            currentFps = 1000 / avgFrameTime
                        in h4\<lparr>uiFps := Some currentFps,
                              uiFrameTime := Some avgFrameTime,
                              uiAccumulator := 0,
                              uiFrameCount := 0\<rparr>)
                  else h4)
        in checkCompletion h5 now)"

definition reportError :: "harness \<Rightarrow> string \<Rightarrow> harness" where
  "reportError h message = h\<lparr>errorOverlay := Some message, benchmarkError := Some message\<rparr>"

subsection \<open>Sequences of calls\<close>

text \<open>A call of the per-frame API carries the readings it takes.\<close>

datatype call =
    StartFrame real real
  | EndFrame real real
  | ResolveGPUTimestamp real real
  | ReportError string

fun step :: "harness \<Rightarrow> call \<Rightarrow> harness" where
  "step h (StartFrame now markTime) = startFrame h now markTime"
| "step h (EndFrame markTime now) = endFrame h markTime now"
| "step h (ResolveGPUTimestamp tsStart tsEnd) = fst (resolveGPUTimestamp h tsStart tsEnd)"
| "step h (ReportError message) = reportError h message"

definition exec :: "harness \<Rightarrow> call list \<Rightarrow> harness" where
  "exec h cs = foldl step h cs"

text \<open>
  The calls of a render loop with a steady frame period of 16 ms: iteration \<open>k\<close> calls
  \<open>startFrame\<close> at \<open>16 * k\<close> and \<open>endFrame\<close> one millisecond later.
\<close>

definition steady_frames :: "nat \<Rightarrow> call list" where
  "steady_frames n = concat (map (\<lambda>k. [StartFrame (16 * real k) (16 * real k),
       EndFrame (16 * real k + 1) (16 * real k + 1)]) [1 ..< n + 1])"

text \<open>
  Two states of the harness agree on everything that measurement reads or writes: all
  fields but the display, the publication flags and the recorded error.
\<close>

definition same_measurement :: "harness \<Rightarrow> harness \<Rightarrow> bool" where
  "same_measurement h1 h2 \<longleftrightarrow>
     results h1 = results h2 \<and> warmupDuration h1 = warmupDuration h2
   \<and> targetDuration h1 = targetDuration h2 \<and> durationMode h1 = durationMode h2
   \<and> targetFrames h1 = targetFrames h2 \<and> isWarmingUp h1 = isWarmingUp h2
   \<and> isComplete h1 = isComplete h2 \<and> startTime h1 = startTime h2
   \<and> lastFrameTime h1 = lastFrameTime h2 \<and> activeFrameCount h1 = activeFrameCount h2
   \<and> gpuSupportTimestamp h1 = gpuSupportTimestamp h2 \<and> cpuStartMark h1 = cpuStartMark h2"

text \<open>
  The phase the flags encode, and its position in the order
  Warmup, Recording, Complete.
\<close>

datatype phase = Warmup | Recording | Complete

definition phase_of :: "harness \<Rightarrow> phase" where
  "phase_of h = (if isComplete h then Complete else if isWarmingUp h then Warmup else Recording)"

fun phase_rank :: "phase \<Rightarrow> nat" where
  "phase_rank Warmup = 0"
| "phase_rank Recording = 1"
| "phase_rank Complete = 2"

section \<open>The frame-count harness\<close>

text \<open>
  The other class \<open>BenchmarkHarness\<close> of the repository: no warm-up phase; it drops
  the first frame and counts frames in \<open>frameCount\<close>.  Its names carry the suffix
  \<open>_fc\<close>.
\<close>

record results_fc =
  frames_fc :: "real list"
  totalTime_fc :: real
  fps_fc :: real
  initTime_fc :: real
  gpuTimes_fc :: "real list"

record harness_fc =
  results_fc :: results_fc
  initialized_fc :: bool
  startTime_fc :: real
  lastFrameTime_fc :: real
  frameCount :: nat
  durationMode_fc :: string
  targetDuration_fc :: real
  targetFrames_fc :: int
  isComplete_fc :: bool
  uiAccumulator_fc :: real
  uiFrameCount_fc :: nat
  uiStatus_fc :: string
  uiFps_fc :: "real option"
  uiFrameTime_fc :: "real option"
  publishedResults_fc :: bool
  completionSignals_fc :: nat
  benchmarkError_fc :: "string option"
  errorOverlay_fc :: "string option"

definition new_harness_fc :: harness_fc where
  "new_harness_fc =
     \<lparr>results_fc = \<lparr>frames_fc = [], totalTime_fc = 0, fps_fc = 0, initTime_fc = 0,
                    gpuTimes_fc = []\<rparr>,
      initialized_fc = False,
      startTime_fc = 0,
      lastFrameTime_fc = 0,
      frameCount = 0,
      durationMode_fc = ''frames'',
      targetDuration_fc = 5,
      targetFrames_fc = 500,
      isComplete_fc = False,
      uiAccumulator_fc = 0,
      uiFrameCount_fc = 0,
      uiStatus_fc = [],
      uiFps_fc = None,
      uiFrameTime_fc = None,
      publishedResults_fc = False,
      completionSignals_fc = 0,
      benchmarkError_fc = None,
      errorOverlay_fc = None\<rparr>"

definition startFrame_fc :: "harness_fc \<Rightarrow> real \<Rightarrow> harness_fc" where
  "startFrame_fc h now =
     (if isComplete_fc h then h
      else if frameCount h = 0 then h\<lparr>startTime_fc := now, lastFrameTime_fc := now\<rparr>
      else h)"

text \<open>
  \<open>finalizeResults\<close> of this class runs no statistics: it sets \<open>totalTime\<close> and derives
  \<open>fps\<close> from the number of recorded frames.
\<close>

definition finalizeResults_fc :: "harness_fc \<Rightarrow> real \<Rightarrow> harness_fc" where
  "finalizeResults_fc h now =
     (let r1 = (results_fc h)\<lparr>totalTime_fc := now - startTime_fc h\<rparr>;
          r2 = r1\<lparr>fps_fc := real (length (frames_fc r1)) / totalTime_fc r1 * 1000\<rparr>
      in h\<lparr>results_fc := r2,
           uiStatus_fc := ''Complete'',
           publishedResults_fc := True,
           completionSignals_fc := completionSignals_fc h + 1\<rparr>)"

definition checkCompletion_fc :: "harness_fc \<Rightarrow> real \<Rightarrow> harness_fc" where
  "checkCompletion_fc h now =
     (let complete =
            (if durationMode_fc h = ''time''
             then now - startTime_fc h > targetDuration_fc h * 1000
             else if durationMode_fc h = ''frames''
             then int (frameCount h) \<ge> targetFrames_fc h
             else False)
      in if complete then finalizeResults_fc (h\<lparr>isComplete_fc := True\<rparr>) now else h)"

text \<open>\<open>endFrame(gpuTimeMs = -1)\<close>; \<open>now\<close> is its clock reading.\<close>

definition endFrame_fc :: "harness_fc \<Rightarrow> real \<Rightarrow> real \<Rightarrow> harness_fc" where
  "endFrame_fc h gpuTimeMs now =
     (if isComplete_fc h then h
      else
        let duration = now - lastFrameTime_fc h;
            r = results_fc h;
            h1 = (if frameCount h > 0
                  then (let r1 = r\<lparr>frames_fc := frames_fc r @ [duration]\<rparr>;
                            r2 = (if gpuTimeMs \<ge> 0
                                  then r1\<lparr>gpuTimes_fc := gpuTimes_fc r1 @ [gpuTimeMs]\<rparr>
                                  else r1)
                        in h\<lparr>results_fc := r2\<rparr>)
                  else h);
            h2 = h1\<lparr>lastFrameTime_fc := now, frameCount := frameCount h1 + 1\<rparr>;
            h3 = h2\<lparr>uiAccumulator_fc := uiAccumulator_fc h2 + duration,
                    uiFrameCount_fc := uiFrameCount_fc h2 + 1\<rparr>;
            h4 = (if uiFrameCount_fc h3 \<ge> 10
                  then (let avgFrameTime = uiAccumulator_fc h3 / real (uiFrameCount_fc h3);
                            currentFps = 1000 / avgFrameTime
                        in h3\<lparr>uiFps_fc := Some currentFps,
                              uiFrameTime_fc := Some avgFrameTime,
                              uiAccumulator_fc := 0,
                              uiFrameCount_fc := 0\<rparr>)
                  else h3)
        in checkCompletion_fc h4 now)"

definition reportError_fc :: "harness_fc \<Rightarrow> string \<Rightarrow> harness_fc" where
  "reportError_fc h message =
     h\<lparr>errorOverlay_fc := Some message, benchmarkError_fc := Some message\<rparr>"

datatype call_fc =
    StartFrame_fc real
  | EndFrame_fc real real
  | ReportError_fc string

fun step_fc :: "harness_fc \<Rightarrow> call_fc \<Rightarrow> harness_fc" where
  "step_fc h (StartFrame_fc now) = startFrame_fc h now"
| "step_fc h (EndFrame_fc gpuTimeMs now) = endFrame_fc h gpuTimeMs now"
| "step_fc h (ReportError_fc message) = reportError_fc h message"

definition exec_fc :: "harness_fc \<Rightarrow> call_fc list \<Rightarrow> harness_fc" where
  "exec_fc h cs = foldl step_fc h cs"

text \<open>How many of the calls of a sequence are \<open>endFrame\<close> calls.\<close>

definition endFrame_calls :: "call_fc list \<Rightarrow> nat" where
  "endFrame_calls cs =
     length (filter (\<lambda>c. case c of EndFrame_fc gpuTimeMs now \<Rightarrow> True | _ \<Rightarrow> False) cs)"

section \<open>The render loop of a scenario\<close>

text \<open>
  \<open>Scenario.run\<close> drives the harness: \<open>startFrame\<close>, then \<open>render\<close>, then, once the
  promise has settled, either \<open>endFrame\<close> and the next iteration, or \<open>reportError\<close>
  and \<open>stop\<close>.  One iteration takes as input the clock readings of \<open>startFrame\<close> and
  the way \<open>render\<close> went:
  \<^item> \<open>Rendered gpu markTime now\<close>: \<open>render\<close> succeeded; \<open>gpu\<close> holds the two timestamps
    when the scenario ended \<open>render\<close> by \<open>resolveGPUTimestamp\<close> (the WebGPU scenarios
    do, the WebGL ones do not); \<open>markTime\<close> and \<open>now\<close> are the readings of \<open>endFrame\<close>;
  \<^item> \<open>RenderFailed message\<close>: the promise was rejected with an error of that message.
  The harness here is the one with the warm-up phase, whose \<open>endFrame\<close> ignores the
  argument it is given.
\<close>

datatype render_result =
    Rendered "(real \<times> real) option" real real
  | RenderFailed string

record scenario =
  harness :: harness
  isRunning :: bool

definition stop :: "scenario \<Rightarrow> scenario" where
  "stop s = s\<lparr>isRunning := False\<rparr>"

definition run :: "scenario \<Rightarrow> real \<times> real \<times> render_result \<Rightarrow> scenario" where
  "run s inp =
     (if \<not> isRunning s then s
      else
        case inp of (now, markTime, r) \<Rightarrow>
          let h1 = startFrame (harness s) now markTime in
          (case r of
             Rendered gpu endMark endNow \<Rightarrow>
               let h2 = (case gpu of
                           None \<Rightarrow> h1
                         | Some (tsStart, tsEnd) \<Rightarrow> fst (resolveGPUTimestamp h1 tsStart tsEnd))
               in s\<lparr>harness := endFrame h2 endMark endNow\<rparr>
           | RenderFailed message \<Rightarrow> stop (s\<lparr>harness := reportError h1 message\<rparr>)))"

text \<open>\<open>requestAnimationFrame\<close> calls \<open>run\<close> again, once per input.\<close>

definition run_loop :: "scenario \<Rightarrow> (real \<times> real \<times> render_result) list \<Rightarrow> scenario" where
  "run_loop s inps = foldl run s inps"

text \<open>\<open>Scenario.start\<close>, with the two clock readings of \<open>endInitTimer\<close>.\<close>

definition start :: "scenario \<Rightarrow> real \<Rightarrow> real \<Rightarrow> scenario" where
  "start s now1 now2 = s\<lparr>isRunning := True, harness := endInitTimer (harness s) now1 now2\<rparr>"

section \<open>The sweep runner\<close>

text \<open>
  \<open>runBenchmark\<close> of \<open>automation/runner.js\<close>.  The browser is the environment: for
  each trial it says how the navigation and the evaluation in the page went.
  \<^item> \<open>Resolved r\<close>: the promise evaluated in the page resolved with the results object
    \<open>r\<close> (the completion event, or results already published);
  \<^item> \<open>Rejected e\<close>: it was rejected, by the timeout of 120 s or by a reported benchmark
    error; the \<open>catch\<close> of the trial absorbs it;
  \<^item> \<open>NavigationFailed e\<close>: \<open>page.goto\<close> threw.  That call stands outside the \<open>try\<close>,
    so the exception ends \<open>runBenchmark\<close>, and the process exits without a report.
\<close>

text \<open>
  The fields the runner reads from a results object.  \<open>meanGpuTime\<close> may be missing,
  the runner defaults it with \<open>|| 0\<close>.
\<close>

record trial_result =
  fps_t :: real
  meanFrameTime_t :: real
  stdFrameTime_t :: real
  p95FrameTime_t :: real
  meanCpuTime_t :: real
  meanGpuTime_t :: "real option"
  initTime_t :: real

datatype trial_outcome =
    Resolved trial_result
  | Rejected string
  | NavigationFailed string

text \<open>An element of \<open>currentTestRuns\<close>.\<close>

record test_run =
  fps_r :: real
  meanFrameTime_r :: real
  stdFrameTime_r :: real
  p95FrameTime_r :: real
  meanCpuTime_r :: real
  meanGpuTime_r :: real
  initTime_r :: real

text \<open>
  The two shapes of an element of \<open>finalResults.data\<close>: the aggregate of the successful
  runs, and the object pushed when there is none, which has the four properties
  \<open>api\<close>, \<open>scenario\<close>, \<open>count\<close> and \<open>error\<close> and no other.
\<close>

record aggregate =
  api_a :: string
  scenario_a :: string
  count_a :: int
  runsSuccessful :: nat
  meanFps :: real
  stdFps :: real
  meanFrameTime_a :: real
  stdFrameTime_a :: real
  meanP95FrameTime :: real
  meanCpuTime_a :: real
  meanGpuTime_a :: real
  meanInitTime :: real

record failure =
  api_f :: string
  scenario_f :: string
  count_f :: int
  error_f :: string

datatype entry = Aggregate aggregate | Failure failure

text \<open>Reading a property of an entry: \<open>None\<close> is \<open>undefined\<close>, the property is absent.\<close>

definition entry_runsSuccessful :: "entry \<Rightarrow> nat option" where
  "entry_runsSuccessful r = (case r of Aggregate a \<Rightarrow> Some (runsSuccessful a) | Failure f \<Rightarrow> None)"

definition entry_error :: "entry \<Rightarrow> string option" where
  "entry_error r = (case r of Aggregate a \<Rightarrow> None | Failure f \<Rightarrow> Some (error_f f))"

definition entry_meanFps :: "entry \<Rightarrow> real option" where
  "entry_meanFps r = (case r of Aggregate a \<Rightarrow> Some (meanFps a) | Failure f \<Rightarrow> None)"

definition entry_stdFps :: "entry \<Rightarrow> real option" where
  "entry_stdFps r = (case r of Aggregate a \<Rightarrow> Some (stdFps a) | Failure f \<Rightarrow> None)"

definition entry_point :: "entry \<Rightarrow> string \<times> string \<times> int" where
  "entry_point r =
     (case r of Aggregate a \<Rightarrow> (api_a a, scenario_a a, count_a a)
              | Failure f \<Rightarrow> (api_f f, scenario_f f, count_f f))"

definition NUM_RUNS :: nat where
  "NUM_RUNS = 10"

definition apis :: "string list" where
  "apis = [''webgl'', ''webgpu'']"

definition testMatrix :: "(string \<times> int list) list" where
  "testMatrix =
     [(''A'', [1]),
      (''B'', [100, 500, 1000, 5000, 10000]),
      (''C'', [10000, 50000, 100000, 200000]),
      (''D'', [100, 256, 512, 1024]),
      (''E'', [500, 2000, 5000, 10000])]"

text \<open>The object pushed to \<open>currentTestRuns\<close> for a resolved trial.\<close>

definition record_run :: "trial_result \<Rightarrow> test_run" where
  "record_run result =
     \<lparr>fps_r = fps_t result,
      meanFrameTime_r = meanFrameTime_t result,
      stdFrameTime_r = stdFrameTime_t result,
      p95FrameTime_r = p95FrameTime_t result,
      meanCpuTime_r = meanCpuTime_t result,
      meanGpuTime_r = (case meanGpuTime_t result of
                         None \<Rightarrow> 0
                       | Some g \<Rightarrow> if g \<noteq> 0 then g else 0),
      initTime_r = initTime_t result\<rparr>"

text \<open>
  The loop \<open>for (let run = 1; run <= NUM_RUNS; run++)\<close> over the run numbers still to
  do; \<open>Inl\<close> is the exception of \<open>page.goto\<close> leaving the loop.
\<close>

fun run_trials ::
  "(nat \<Rightarrow> trial_outcome) \<Rightarrow> nat list \<Rightarrow> test_run list \<Rightarrow> string + test_run list" where
  "run_trials outcome [] currentTestRuns = Inr currentTestRuns"
| "run_trials outcome (n # ns) currentTestRuns =
     (case outcome n of
        NavigationFailed e \<Rightarrow> Inl e
      | Rejected e \<Rightarrow> run_trials outcome ns currentTestRuns
      | Resolved result \<Rightarrow> run_trials outcome ns (currentTestRuns @ [record_run result]))"

text \<open>
  The runs that the loop collects when no navigation fails: one for each resolved trial,
  in the order of the run numbers.
\<close>

definition successful_runs :: "(nat \<Rightarrow> trial_outcome) \<Rightarrow> nat list \<Rightarrow> test_run list" where
  "successful_runs outcome ns =
     concat (map (\<lambda>n. case outcome n of Resolved result \<Rightarrow> [record_run result] | _ \<Rightarrow> []) ns)"

text \<open>What is pushed to \<open>finalResults.data\<close> after the runs of one configuration point.\<close>

definition aggregate_runs :: "string \<Rightarrow> string \<Rightarrow> int \<Rightarrow> test_run list \<Rightarrow> entry" where
  "aggregate_runs api scenario count' currentTestRuns =
     (if length currentTestRuns > 0 then
        Aggregate
          \<lparr>api_a = api,
           scenario_a = scenario,
           count_a = count',
           runsSuccessful = length currentTestRuns,
           meanFps = getMean (map fps_r currentTestRuns),
           stdFps = getStdDev (map fps_r currentTestRuns) (getMean (map fps_r currentTestRuns)),
           meanFrameTime_a = getMean (map meanFrameTime_r currentTestRuns),
           stdFrameTime_a = getStdDev (map meanFrameTime_r currentTestRuns)
                              (getMean (map meanFrameTime_r currentTestRuns)),
           meanP95FrameTime = getMean (map p95FrameTime_r currentTestRuns),
           meanCpuTime_a = getMean (map meanCpuTime_r currentTestRuns),
           meanGpuTime_a = getMean (map meanGpuTime_r currentTestRuns),
           meanInitTime = getMean (map initTime_r currentTestRuns)\<rparr>
      else
        Failure \<lparr>api_f = api, scenario_f = scenario, count_f = count',
                 error_f = ''All runs failed''\<rparr>)"

text \<open>
  The three nested loops visit the configuration points in this order; the environment
  \<open>env\<close> gives the outcome of run \<open>n\<close> at a point.
\<close>

definition configuration_points ::
  "string list \<Rightarrow> (string \<times> int list) list \<Rightarrow> (string \<times> string \<times> int) list" where
  "configuration_points as tests =
     concat (map (\<lambda>api. concat (map (\<lambda>(scenario, counts).
        map (\<lambda>count'. (api, scenario, count')) counts) tests)) as)"

fun sweep ::
  "(string \<times> string \<times> int \<Rightarrow> nat \<Rightarrow> trial_outcome) \<Rightarrow> nat \<Rightarrow> (string \<times> string \<times> int) list \<Rightarrow>
     entry list \<Rightarrow> string + entry list" where
  "sweep env n [] data = Inr data"
| "sweep env n ((api, scenario, count') # ps) data =
     (case run_trials (env (api, scenario, count')) [1 ..< n + 1] [] of
        Inl e \<Rightarrow> Inl e
      | Inr currentTestRuns \<Rightarrow>
          sweep env n ps (data @ [aggregate_runs api scenario count' currentTestRuns]))"

definition runBenchmark ::
  "(string \<times> string \<times> int \<Rightarrow> nat \<Rightarrow> trial_outcome) \<Rightarrow> string + entry list" where
  "runBenchmark env = sweep env NUM_RUNS (configuration_points apis testMatrix) []"

text \<open>
  The CSV projection, one row per entry, as the list of its twelve cells: a text, the
  count, a number printed by \<open>toFixed(2)\<close>, or nothing.  The branch is taken on the
  truthiness of \<open>r.error\<close>; an entry without statistics that reached the other branch
  would throw on \<open>r.meanFps.toFixed\<close>.
\<close>

datatype cell = Text string | Count int | Fixed2 real | Blank

definition csv_row :: "entry \<Rightarrow> string + cell list" where
  "csv_row r =
     (case r of
        Failure f \<Rightarrow>
          if error_f f \<noteq> []
          then Inr [Text (api_f f), Text (scenario_f f), Count (count_f f),
                    Blank, Blank, Blank, Blank, Blank, Blank, Blank, Blank, Text (error_f f)]
          else Inl ''TypeError''
      | Aggregate a \<Rightarrow>
          Inr [Text (api_a a), Text (scenario_a a), Count (count_a a),
               Fixed2 (meanFps a), Fixed2 (stdFps a), Fixed2 (meanFrameTime_a a),
               Fixed2 (stdFrameTime_a a), Fixed2 (meanP95FrameTime a), Fixed2 (meanCpuTime_a a),
               Fixed2 (meanGpuTime_a a), Fixed2 (meanInitTime a), Blank])"

section \<open>The statistics engine: percentile, mean and deviation\<close>

lemma foldl_add_sum_list:
  "foldl (\<lambda>a b. a + f b) (s::real) xs = s + sum_list (map f xs)"
  by (induction xs arbitrary: s) simp_all

lemma p95_index_less:
  assumes "0 < n"
  shows "nat \<lfloor>real n * 0.95\<rfloor> < n"
proof -
  have "real n * 0.95 < real n" using assms by simp
  then have "\<lfloor>real n * 0.95\<rfloor> < int n" by (simp add: floor_less_iff)
  moreover have "z < int n \<Longrightarrow> nat z < n" for z using assms by arith
  ultimately show ?thesis by blast
qed

lemma p95_index_div: "nat \<lfloor>real n * 0.95\<rfloor> = (19 * n) div 20"
proof -
  have "real n * 0.95 = real (19 * n) / real 20" by simp
  then have "\<lfloor>real n * 0.95\<rfloor> = int ((19 * n) div 20)"
    by (simp only: floor_divide_of_nat_eq)
  then show ?thesis by simp
qed

text \<open>
  Claim C4.  For a non-empty sample sequence \<open>xs\<close>, both percentile helpers return the
  element at zero-based index \<open>floor (0.95 * length xs)\<close> of \<open>xs\<close> sorted ascending
  (\<open>ys\<close> is any ascending rearrangement of \<open>xs\<close>); that index lies inside the array,
  so the result is never \<open>undefined\<close>, and it equals \<open>19 * length xs div 20\<close>.  On the
  twenty samples 1 to 20 the index is 19 and the result is the maximum, 20.
\<close>

theorem p95_nearest_rank:
  assumes "xs \<noteq> []" and "sorted ys" and "mset ys = mset xs"
  shows "p95 xs = Some (ys ! nat \<lfloor>0.95 * real (length xs)\<rfloor>)
       \<and> getP95 xs = Some (ys ! nat \<lfloor>0.95 * real (length xs)\<rfloor>)
       \<and> nat \<lfloor>0.95 * real (length xs)\<rfloor> < length ys
       \<and> nat \<lfloor>0.95 * real (length xs)\<rfloor> = (19 * length xs) div 20
       \<and> p95 [1, 2, 3, 4, 5, 6, 7, 8, 9, 10, 11, 12, 13, 14, 15, 16, 17, 18, 19, 20] = Some 20"
proof -
  have s: "sort xs = ys"
    by (rule properties_for_sort[OF assms(3) assms(2)])
  have len: "length ys = length xs"
    using assms(3) by (metis size_mset)
  have pos: "0 < length xs" using assms(1) by simp
  have comm: "nat \<lfloor>0.95 * real (length xs)\<rfloor> = nat \<lfloor>real (length xs) * 0.95\<rfloor>"
    by (simp add: mult.commute)
  have lt: "nat \<lfloor>real (length xs) * 0.95\<rfloor> < length xs"
    using pos by (rule p95_index_less)
  have a: "p95 xs = Some (ys ! nat \<lfloor>0.95 * real (length xs)\<rfloor>)"
    unfolding comm using lt by (simp add: p95_def s len Let_def)
  have b: "getP95 xs = Some (ys ! nat \<lfloor>0.95 * real (length xs)\<rfloor>)"
    unfolding comm using lt by (simp add: getP95_def s len Let_def)
  have c: "nat \<lfloor>0.95 * real (length xs)\<rfloor> < length ys"
    unfolding comm using lt by (simp add: len)
  have d: "nat \<lfloor>0.95 * real (length xs)\<rfloor> = (19 * length xs) div 20"
    unfolding comm by (rule p95_index_div)
  have e: "p95 [1, 2, 3, 4, 5, 6, 7, 8, 9, 10, 11, 12, 13, 14, 15, 16, 17, 18, 19, 20] = Some 20"
    by (simp add: p95_def)
  from a b c d e show ?thesis by blast
qed

theorem p95_nearest_rank_witness:
  "p95 [30, 10, 20] = Some 30 \<and> getP95 [30, 10, 20] = Some 30"
  using p95_nearest_rank[of "[30, 10, 20]" "[10, 20, 30]"] by simp

text \<open>
  Claim C5.  For a non-empty sample sequence \<open>xs\<close>, \<open>mean xs\<close> is the sum divided by
  the length, and \<open>stdDev xs\<close> is the population standard deviation: the square root of
  the mean of the squared deviations from the mean, with divisor \<open>length xs\<close> and not
  \<open>length xs - 1\<close>.  The runner's \<open>getMean\<close> and \<open>getStdDev\<close> compute the same.
  Hence the mean of 1, 2, 3, 4 is 2.5, the deviation of 5, 5, 5, 5 is 0, and over the ten
  fps values of the example the mean is 59.8 and the deviation is the population one,
  \<open>sqrt 1.56\<close>; these are the \<open>meanFps\<close> and \<open>stdFps\<close> of the entry the runner
  aggregates from ten runs with these fps values.
\<close>

theorem mean_stddev_population:
  assumes "xs \<noteq> []"
  shows "mean xs = sum_list xs / real (length xs)
       \<and> stdDev xs = sqrt (mean (map (\<lambda>x. (x - mean xs) ^ 2) xs))
       \<and> stdDev xs = sqrt ((\<Sum>x\<leftarrow>xs. (x - mean xs) ^ 2) / real (length xs))
       \<and> getMean xs = mean xs
       \<and> getStdDev xs (getMean xs) = stdDev xs
       \<and> mean [1, 2, 3, 4] = 2.5
       \<and> stdDev [5, 5, 5, 5] = 0
       \<and> getMean [58, 59, 60, 61, 60, 59, 58, 62, 60, 61] = 59.8
       \<and> getStdDev [58, 59, 60, 61, 60, 59, 58, 62, 60, 61]
            (getMean [58, 59, 60, 61, 60, 59, 58, 62, 60, 61])
          = sqrt (mean (map (\<lambda>x. (x - 59.8) ^ 2) [58, 59, 60, 61, 60, 59, 58, 62, 60, 61]))
       \<and> getStdDev [58, 59, 60, 61, 60, 59, 58, 62, 60, 61] 59.8 = sqrt 1.56
       \<and> (map fps_r runs = [58, 59, 60, 61, 60, 59, 58, 62, 60, 61] \<longrightarrow>
            entry_runsSuccessful (aggregate_runs api scenario count' runs) = Some 10
          \<and> entry_meanFps (aggregate_runs api scenario count' runs) = Some 59.8
          \<and> entry_stdFps (aggregate_runs api scenario count' runs) = Some (sqrt 1.56)
          \<and> entry_stdFps (aggregate_runs api scenario count' runs)
              = Some (stdDev [58, 59, 60, 61, 60, 59, 58, 62, 60, 61]))"
proof -
  have a: "mean xs = sum_list xs / real (length xs)"
    using foldl_add_sum_list[of "\<lambda>b. b" 0 xs] by (simp add: mean_def sum_arr_def)
  have v: "variance xs m = (\<Sum>x\<leftarrow>xs. (x - m) ^ 2) / real (length xs)" for m
    using foldl_add_sum_list[of "\<lambda>b. (b - m) ^ 2" 0 xs] by (simp add: variance_def)
  have c: "stdDev xs = sqrt ((\<Sum>x\<leftarrow>xs. (x - mean xs) ^ 2) / real (length xs))"
    by (simp add: stdDev_def v)
  have b: "stdDev xs = sqrt (mean (map (\<lambda>x. (x - mean xs) ^ 2) xs))"
    using foldl_add_sum_list[of "\<lambda>b. b" 0 "map (\<lambda>x. (x - mean xs) ^ 2) xs"]
    by (simp add: c mean_def[of "map (\<lambda>x. (x - mean xs) ^ 2) xs"] sum_arr_def)
  have d: "getMean xs = mean xs"
    by (simp add: getMean_def mean_def sum_arr_def)
  have e: "getStdDev xs (getMean xs) = stdDev xs"
    by (simp add: d getStdDev_def stdDev_def variance_def)
  have f: "mean [1, 2, 3, 4] = 2.5"
    by (simp add: mean_def sum_arr_def)
  have g: "stdDev [5, 5, 5, 5] = 0"
    by (simp add: stdDev_def variance_def mean_def sum_arr_def)
  have h: "getMean [58, 59, 60, 61, 60, 59, 58, 62, 60, 61] = 59.8"
    by (simp add: getMean_def)
  have i: "getStdDev [58, 59, 60, 61, 60, 59, 58, 62, 60, 61] 59.8 = sqrt 1.56"
    by (simp add: getStdDev_def power2_eq_square)
  have j: "getStdDev [58, 59, 60, 61, 60, 59, 58, 62, 60, 61]
            (getMean [58, 59, 60, 61, 60, 59, 58, 62, 60, 61])
          = sqrt (mean (map (\<lambda>x. (x - 59.8) ^ 2) [58, 59, 60, 61, 60, 59, 58, 62, 60, 61]))"
    by (simp add: h getStdDev_def mean_def sum_arr_def)
  have k: "entry_runsSuccessful (aggregate_runs api scenario count' runs) = Some 10
          \<and> entry_meanFps (aggregate_runs api scenario count' runs) = Some 59.8
          \<and> entry_stdFps (aggregate_runs api scenario count' runs) = Some (sqrt 1.56)
          \<and> entry_stdFps (aggregate_runs api scenario count' runs)
              = Some (stdDev [58, 59, 60, 61, 60, 59, 58, 62, 60, 61])"
    if m: "map fps_r runs = [58, 59, 60, 61, 60, 59, 58, 62, 60, 61]"
  proof -
    have "length (map fps_r runs) = 10" by (simp only: m) simp
    then have len: "length runs = 10" by simp
    have sd: "stdDev [58, 59, 60, 61, 60, 59, 58, 62, 60, 61] = sqrt 1.56"
      by (simp add: stdDev_def variance_def mean_def sum_arr_def power2_eq_square)
    have "entry_runsSuccessful (aggregate_runs api scenario count' runs) = Some 10"
      and "entry_meanFps (aggregate_runs api scenario count' runs)
          = Some (getMean [58, 59, 60, 61, 60, 59, 58, 62, 60, 61])"
      and "entry_stdFps (aggregate_runs api scenario count' runs)
          = Some (getStdDev [58, 59, 60, 61, 60, 59, 58, 62, 60, 61]
                   (getMean [58, 59, 60, 61, 60, 59, 58, 62, 60, 61]))"
      using len
      by (simp_all add: aggregate_runs_def entry_runsSuccessful_def entry_meanFps_def
          entry_stdFps_def m)
    then show ?thesis by (simp only: h i sd)
  qed
  from a b c d e f g h i j k show ?thesis by blast
qed

theorem mean_stddev_population_witness:
  "mean [2, 4, 4, 4, 5, 5, 7, 9] = 5 \<and> stdDev [2, 4, 4, 4, 5, 5, 7, 9] = 2
 \<and> entry_meanFps (aggregate_runs ''webgl'' ''A'' 1
      (map (\<lambda>f. \<lparr>fps_r = f, meanFrameTime_r = 16, stdFrameTime_r = 1, p95FrameTime_r = 18,
                  meanCpuTime_r = 2, meanGpuTime_r = 0, initTime_r = 40\<rparr>)
         [58, 59, 60, 61, 60, 59, 58, 62, 60, 61])) = Some 59.8"
proof -
  let ?xs = "[2, 4, 4, 4, 5, 5, 7, 9] :: real list"
  let ?runs = "map (\<lambda>f. \<lparr>fps_r = f, meanFrameTime_r = 16, stdFrameTime_r = 1,
                  p95FrameTime_r = 18, meanCpuTime_r = 2, meanGpuTime_r = 0, initTime_r = 40\<rparr>)
         [58, 59, 60, 61, 60, 59, 58, 62, 60, 61]"
  have ne: "?xs \<noteq> []" by simp
  have fr: "map fps_r ?runs = [58, 59, 60, 61, 60, 59, 58, 62, 60, 61]" by simp
  from mean_stddev_population[OF ne, where runs = ?runs and api = "''webgl''"
      and scenario = "''A''" and count' = 1] fr
  have m: "mean ?xs = sum_list ?xs / real (length ?xs)"
    and s: "stdDev ?xs = sqrt ((\<Sum>x\<leftarrow>?xs. (x - mean ?xs) ^ 2) / real (length ?xs))"
    and e: "entry_meanFps (aggregate_runs ''webgl'' ''A'' 1 ?runs) = Some 59.8"
    by blast+
  have m5: "mean ?xs = 5" unfolding m by simp
  have "stdDev ?xs = sqrt (2 ^ 2)" unfolding s m5 by (simp add: power2_eq_square)
  then have s2: "stdDev ?xs = 2" by simp
  from m5 s2 e show ?thesis by blast
qed

section \<open>The warm-up harness: what one call and a sequence of calls do\<close>

subsection \<open>calculateStatistics, finalizeResults, checkCompletion\<close>

lemma calculateStatistics_samples:
  "frames (calculateStatistics r) = frames r"
  "cpuTimes (calculateStatistics r) = cpuTimes r"
  "gpuTimes (calculateStatistics r) = gpuTimes r"
  "totalTime (calculateStatistics r) = totalTime r"
  by (simp_all add: calculateStatistics_def Let_def)

lemma calculateStatistics_stats:
  assumes "frames r \<noteq> []"
  shows "meanFrameTime (calculateStatistics r) = mean (frames r)"
    and "stdFrameTime (calculateStatistics r) = stdDev (frames r)"
    and "p95FrameTime (calculateStatistics r) = p95 (frames r)"
    and "fps (calculateStatistics r) = 1000 / mean (frames r)"
  using assms by (simp_all add: calculateStatistics_def Let_def)

lemma calculateStatistics_cpu:
  "cpuTimes r \<noteq> [] \<Longrightarrow> meanCpuTime (calculateStatistics r) = mean (cpuTimes r)"
  by (simp add: calculateStatistics_def Let_def)

lemma calculateStatistics_gpu:
  "meanGpuTime (calculateStatistics r) = (if gpuTimes r \<noteq> [] then mean (gpuTimes r) else meanGpuTime r)"
  by (simp add: calculateStatistics_def Let_def)

lemma finalizeResults_fields:
  "isComplete (finalizeResults h now) = isComplete h"
  "isWarmingUp (finalizeResults h now) = isWarmingUp h"
  "gpuSupportTimestamp (finalizeResults h now) = gpuSupportTimestamp h"
  "startTime (finalizeResults h now) = startTime h"
  "lastFrameTime (finalizeResults h now) = lastFrameTime h"
  "activeFrameCount (finalizeResults h now) = activeFrameCount h"
  "durationMode (finalizeResults h now) = durationMode h"
  "targetDuration (finalizeResults h now) = targetDuration h"
  "targetFrames (finalizeResults h now) = targetFrames h"
  "cpuStartMark (finalizeResults h now) = cpuStartMark h"
  "benchmarkError (finalizeResults h now) = benchmarkError h"
  "completionSignals (finalizeResults h now) = completionSignals h + 1"
  "publishedResults (finalizeResults h now) = True"
  "uiStatus (finalizeResults h now) = ''Complete''"
  "results (finalizeResults h now) = calculateStatistics ((results h)\<lparr>totalTime := now - startTime h\<rparr>)"
  by (simp_all add: finalizeResults_def Let_def)

lemma checkCompletion_cases:
  "checkCompletion h now =
     (if stop_condition h now then finalizeResults (h\<lparr>isComplete := True\<rparr>) now else h)"
  by (simp add: checkCompletion_def stop_condition_def Let_def)

lemma checkCompletion_fields:
  "isWarmingUp (checkCompletion h now) = isWarmingUp h"
  "gpuSupportTimestamp (checkCompletion h now) = gpuSupportTimestamp h"
  "isComplete (checkCompletion h now) = (isComplete h \<or> stop_condition h now)"
  "frames (results (checkCompletion h now)) = frames (results h)"
  "cpuTimes (results (checkCompletion h now)) = cpuTimes (results h)"
  "gpuTimes (results (checkCompletion h now)) = gpuTimes (results h)"
  "completionSignals (checkCompletion h now) =
     (if stop_condition h now then completionSignals h + 1 else completionSignals h)"
  "benchmarkError (checkCompletion h now) = benchmarkError h"
  by (simp_all add: checkCompletion_cases finalizeResults_fields calculateStatistics_samples)


subsection \<open>The per-frame methods, one call\<close>

lemma startFrame_fields:
  "results (startFrame h now m) = results h"
  "isComplete (startFrame h now m) = isComplete h"
  "gpuSupportTimestamp (startFrame h now m) = gpuSupportTimestamp h"
  "completionSignals (startFrame h now m) = completionSignals h"
  "benchmarkError (startFrame h now m) = benchmarkError h"
  by (simp_all add: startFrame_def)

lemma startFrame_warming:
  "isWarmingUp (startFrame h now m) =
     (isWarmingUp h \<and> (isComplete h \<or> \<not> now - startTime h > warmupDuration h))"
  by (simp add: startFrame_def)

lemma endFrame_idle:
  "isComplete h \<or> isWarmingUp h \<Longrightarrow> endFrame h m now = h\<lparr>lastFrameTime := now\<rparr>"
  by (simp add: endFrame_def)

lemma endFrame_recording:
  assumes "\<not> isComplete h" and "\<not> isWarmingUp h"
  shows "frames (results (endFrame h m now)) = frames (results h) @ [now - lastFrameTime h]"
    and "cpuTimes (results (endFrame h m now)) =
           cpuTimes (results h) @ [case cpuStartMark h of Some s \<Rightarrow> m - s | None \<Rightarrow> 0]"
    and "isComplete (endFrame h m now) =
           ((durationMode h = ''time'' \<and> now - startTime h > targetDuration h * 1000)
          \<or> (durationMode h = ''frames'' \<and> int (activeFrameCount h) + 1 \<ge> targetFrames h))"
    and "completionSignals (endFrame h m now) =
           (if isComplete (endFrame h m now) then completionSignals h + 1
            else completionSignals h)"
  using assms
  by (auto simp add: endFrame_def Let_def checkCompletion_fields stop_condition_def)

lemma endFrame_fields:
  "isWarmingUp (endFrame h m now) = isWarmingUp h"
  "gpuSupportTimestamp (endFrame h m now) = gpuSupportTimestamp h"
  "gpuTimes (results (endFrame h m now)) = gpuTimes (results h)"
  "benchmarkError (endFrame h m now) = benchmarkError h"
  by (simp_all add: endFrame_def Let_def checkCompletion_fields)

lemma endFrame_complete_stays: "isComplete h \<Longrightarrow> isComplete (endFrame h m now)"
  by (simp add: endFrame_idle)

lemma resolveGPUTimestamp_fields:
  "isWarmingUp (fst (resolveGPUTimestamp h s e)) = isWarmingUp h"
  "isComplete (fst (resolveGPUTimestamp h s e)) = isComplete h"
  "gpuSupportTimestamp (fst (resolveGPUTimestamp h s e)) = gpuSupportTimestamp h"
  "frames (results (fst (resolveGPUTimestamp h s e))) = frames (results h)"
  "cpuTimes (results (fst (resolveGPUTimestamp h s e))) = cpuTimes (results h)"
  "completionSignals (fst (resolveGPUTimestamp h s e)) = completionSignals h"
  "benchmarkError (fst (resolveGPUTimestamp h s e)) = benchmarkError h"
  by (simp_all add: resolveGPUTimestamp_def Let_def)

lemma resolveGPUTimestamp_idle:
  "\<not> gpuSupportTimestamp h \<or> isWarmingUp h \<or> isComplete h \<Longrightarrow>
     resolveGPUTimestamp h s e = (h, - 1)"
  by (simp add: resolveGPUTimestamp_def)

lemma resolveGPUTimestamp_gpuTimes:
  "gpuTimes (results (fst (resolveGPUTimestamp h s e))) =
     (if gpuSupportTimestamp h \<and> \<not> isWarmingUp h \<and> \<not> isComplete h \<and> 0 \<le> (e - s) / 1000000
      then gpuTimes (results h) @ [(e - s) / 1000000] else gpuTimes (results h))"
  by (simp add: resolveGPUTimestamp_def Let_def)

lemma reportError_fields:
  "results (reportError h msg) = results h"
  "isWarmingUp (reportError h msg) = isWarmingUp h"
  "isComplete (reportError h msg) = isComplete h"
  "gpuSupportTimestamp (reportError h msg) = gpuSupportTimestamp h"
  "completionSignals (reportError h msg) = completionSignals h"
  "benchmarkError (reportError h msg) = Some msg"
  "errorOverlay (reportError h msg) = Some msg"
  by (simp_all add: reportError_def)

subsection \<open>Sequences of calls\<close>

lemma exec_Nil: "exec h [] = h"
  by (simp add: exec_def)

lemma exec_Cons: "exec h (c # cs) = exec (step h c) cs"
  by (simp add: exec_def)

lemma exec_append: "exec h (cs @ ds) = exec (exec h cs) ds"
  by (simp add: exec_def)

lemma step_warming_mono: "isWarmingUp (step h c) \<Longrightarrow> isWarmingUp h"
  by (cases c) (simp_all add: startFrame_warming endFrame_fields resolveGPUTimestamp_fields
      reportError_fields)

lemma step_warming_samples:
  assumes "isWarmingUp h"
  shows "frames (results (step h c)) = frames (results h)
       \<and> cpuTimes (results (step h c)) = cpuTimes (results h)
       \<and> gpuTimes (results (step h c)) = gpuTimes (results h)"
  using assms
  by (cases c) (simp_all add: startFrame_fields endFrame_idle resolveGPUTimestamp_idle
      reportError_fields)

lemma exec_warming_mono: "isWarmingUp (exec h cs) \<Longrightarrow> isWarmingUp h"
  by (induction cs arbitrary: h) (auto simp: exec_Nil exec_Cons dest: step_warming_mono)

lemma exec_warming_samples:
  "isWarmingUp (exec h cs) \<Longrightarrow>
     frames (results (exec h cs)) = frames (results h)
   \<and> cpuTimes (results (exec h cs)) = cpuTimes (results h)
   \<and> gpuTimes (results (exec h cs)) = gpuTimes (results h)"
proof (induction cs arbitrary: h)
  case Nil
  then show ?case by (simp add: exec_Nil)
next
  case (Cons c cs)
  from Cons.prems have w: "isWarmingUp (exec (step h c) cs)" by (simp add: exec_Cons)
  then have "isWarmingUp (step h c)" by (rule exec_warming_mono)
  then have "isWarmingUp h" by (rule step_warming_mono)
  then show ?case using Cons.IH[OF w] step_warming_samples[of h c] by (simp add: exec_Cons)
qed

lemma step_complete_fixed:
  assumes "isComplete h"
  shows "isComplete (step h c) \<and> results (step h c) = results h
       \<and> completionSignals (step h c) = completionSignals h
       \<and> isWarmingUp (step h c) = isWarmingUp h"
  using assms
  by (cases c) (simp_all add: startFrame_def endFrame_idle resolveGPUTimestamp_idle
      reportError_fields)

lemma exec_complete_fixed:
  "isComplete h \<Longrightarrow>
     isComplete (exec h cs) \<and> results (exec h cs) = results h
   \<and> completionSignals (exec h cs) = completionSignals h
   \<and> isWarmingUp (exec h cs) = isWarmingUp h"
proof (induction cs arbitrary: h)
  case Nil
  then show ?case by (simp add: exec_Nil)
next
  case (Cons c cs)
  from step_complete_fixed[OF Cons.prems, of c] Cons.IH[of "step h c"]
  show ?case by (simp add: exec_Cons)
qed

lemma step_complete_mono: "isComplete h \<Longrightarrow> isComplete (step h c)"
  using step_complete_fixed by blast

lemma step_phase_rank: "phase_rank (phase_of h) \<le> phase_rank (phase_of (step h c))"
proof (cases "isComplete h")
  case True
  then show ?thesis using step_complete_mono[of h c] by (simp add: phase_of_def)
next
  case False
  have "isWarmingUp (step h c) \<Longrightarrow> isWarmingUp h" by (rule step_warming_mono)
  then show ?thesis using False by (auto simp: phase_of_def)
qed

lemma exec_phase_rank: "phase_rank (phase_of h) \<le> phase_rank (phase_of (exec h cs))"
proof (induction cs arbitrary: h)
  case Nil
  then show ?case by (simp add: exec_Nil)
next
  case (Cons c cs)
  have "phase_rank (phase_of h) \<le> phase_rank (phase_of (step h c))" by (rule step_phase_rank)
  also have "\<dots> \<le> phase_rank (phase_of (exec (step h c) cs))" by (rule Cons.IH)
  finally show ?case by (simp add: exec_Cons)
qed

section \<open>The frame-count harness: sequences of calls\<close>

lemma exec_fc_Nil: "exec_fc h [] = h"
  by (simp add: exec_fc_def)

lemma exec_fc_Cons: "exec_fc h (c # cs) = exec_fc (step_fc h c) cs"
  by (simp add: exec_fc_def)

lemma step_fc_complete_fixed:
  assumes "isComplete_fc h"
  shows "isComplete_fc (step_fc h c) \<and> results_fc (step_fc h c) = results_fc h
       \<and> completionSignals_fc (step_fc h c) = completionSignals_fc h"
  using assms by (cases c) (simp_all add: startFrame_fc_def endFrame_fc_def reportError_fc_def)

lemma exec_fc_complete_fixed:
  "isComplete_fc h \<Longrightarrow>
     isComplete_fc (exec_fc h cs) \<and> results_fc (exec_fc h cs) = results_fc h
   \<and> completionSignals_fc (exec_fc h cs) = completionSignals_fc h"
proof (induction cs arbitrary: h)
  case Nil
  then show ?case by (simp add: exec_fc_Nil)
next
  case (Cons c cs)
  from step_fc_complete_fixed[OF Cons.prems, of c] Cons.IH[of "step_fc h c"]
  show ?case by (simp add: exec_fc_Cons)
qed

section \<open>Warm-up, recording and completion\<close>

text \<open>
  Claim C1.  A call made while \<open>isWarmingUp\<close> holds appends nothing to \<open>frames\<close>,
  \<open>cpuTimes\<close> or \<open>gpuTimes\<close>; and if the harness is still warming up after a sequence
  of calls (\<open>startFrame\<close>, \<open>endFrame\<close>, \<open>resolveGPUTimestamp\<close>, \<open>reportError\<close>, in any
  order), it was warming up all along and the three sequences are the ones it started
  with.  So whatever the finalized result holds was appended after Warmup.
\<close>

theorem no_sample_during_warmup:
  "(isWarmingUp h \<longrightarrow>
      frames (results (step h c)) = frames (results h)
    \<and> cpuTimes (results (step h c)) = cpuTimes (results h)
    \<and> gpuTimes (results (step h c)) = gpuTimes (results h))
 \<and> (isWarmingUp (exec h cs) \<longrightarrow>
      isWarmingUp h
    \<and> frames (results (exec h cs)) = frames (results h)
    \<and> cpuTimes (results (exec h cs)) = cpuTimes (results h)
    \<and> gpuTimes (results (exec h cs)) = gpuTimes (results h))"
  using step_warming_samples[of h c] exec_warming_mono[of h cs] exec_warming_samples[of h cs]
  by blast

theorem no_sample_during_warmup_witness:
  "isWarmingUp (exec new_harness (steady_frames 62))
 \<and> frames (results (exec new_harness (steady_frames 62))) = []
 \<and> cpuTimes (results (exec new_harness (steady_frames 62))) = []
 \<and> gpuTimes (results (exec new_harness (steady_frames 62))) = []
 \<and> frames (results (step new_harness (EndFrame 17 17))) = []"
proof -
  have w: "isWarmingUp (exec new_harness (steady_frames 62))"
    by (simp add: steady_frames_def exec_def new_harness_def startFrame_def endFrame_def upt_rec)
  have w0: "isWarmingUp new_harness"
    by (simp add: new_harness_def)
  from w w0 no_sample_during_warmup[of new_harness "EndFrame 17 17" "steady_frames 62"]
  show ?thesis by (simp add: new_harness_def resetResults_def)
qed

text \<open>
  Claim C2 as stated fails: on a fresh harness (warm-up 1000 ms, Warmup entered at 0),
  \<open>startFrame\<close> at 1001 leaves Warmup, and the \<open>endFrame\<close> of that same iteration, at
  1017, appends the sample 16 to \<open>frames\<close> and to \<open>cpuTimes\<close>.
\<close>

theorem warmup_exit_counterexample:
  "isWarmingUp new_harness
 \<and> 1001 - startTime new_harness > warmupDuration new_harness
 \<and> frames (results (startFrame new_harness 1001 1001)) = []
 \<and> frames (results (endFrame (startFrame new_harness 1001 1001) 1017 1017)) = [16]
 \<and> cpuTimes (results (endFrame (startFrame new_harness 1001 1001) 1017 1017)) = [16]"
  by (simp add: new_harness_def resetResults_def startFrame_def endFrame_recording)

text \<open>
  Claim C2, as amended.  When \<open>startFrame\<close> is called in the Warmup phase and the time
  elapsed since Warmup entry exceeds the warm-up duration, the harness moves to Recording,
  resets the reference clock (\<open>startTime\<close> and \<open>lastFrameTime\<close> become \<open>now\<close>), zeroes
  \<open>activeFrameCount\<close> and appends nothing itself; it does not return early but places
  the CPU start mark, and the \<open>endFrame\<close> call of that same iteration appends exactly one
  sample to \<open>frames\<close> (the time since the transition) and one to \<open>cpuTimes\<close> (the time
  between the two marks), and nothing to \<open>gpuTimes\<close>.
\<close>

theorem warmup_exit_records_same_iteration:
  assumes "\<not> isComplete h" and "isWarmingUp h" and "now - startTime h > warmupDuration h"
  shows "phase_of h = Warmup
       \<and> phase_of (startFrame h now mark) = Recording
       \<and> startTime (startFrame h now mark) = now
       \<and> lastFrameTime (startFrame h now mark) = now
       \<and> activeFrameCount (startFrame h now mark) = 0
       \<and> results (startFrame h now mark) = results h
       \<and> frames (results (endFrame (startFrame h now mark) endMark endNow))
           = frames (results h) @ [endNow - now]
       \<and> cpuTimes (results (endFrame (startFrame h now mark) endMark endNow))
           = cpuTimes (results h) @ [endMark - mark]
       \<and> gpuTimes (results (endFrame (startFrame h now mark) endMark endNow))
           = gpuTimes (results h)"
proof -
  let ?h = "startFrame h now mark"
  have st: "?h = h\<lparr>isWarmingUp := False, startTime := now, lastFrameTime := now,
      uiStatus := ''Recording'', activeFrameCount := 0, cpuStartMark := Some mark\<rparr>"
    using assms by (simp add: startFrame_def)
  have rec: "\<not> isComplete ?h" "\<not> isWarmingUp ?h"
    using assms by (simp_all add: st)
  have a: "phase_of h = Warmup" "phase_of ?h = Recording"
    using assms rec by (simp_all add: phase_of_def)
  have b: "startTime ?h = now" "lastFrameTime ?h = now" "activeFrameCount ?h = 0"
    "results ?h = results h" "cpuStartMark ?h = Some mark"
    by (simp_all add: st)
  have c: "frames (results (endFrame ?h endMark endNow)) = frames (results h) @ [endNow - now]"
    using endFrame_recording(1)[OF rec, of endMark endNow] b by simp
  have d: "cpuTimes (results (endFrame ?h endMark endNow)) = cpuTimes (results h) @ [endMark - mark]"
    using endFrame_recording(2)[OF rec, of endMark endNow] b by simp
  have e: "gpuTimes (results (endFrame ?h endMark endNow)) = gpuTimes (results h)"
    using b by (simp add: endFrame_fields)
  from a b c d e show ?thesis by blast
qed

theorem warmup_exit_records_same_iteration_witness:
  "phase_of (startFrame new_harness 1001 1002) = Recording
 \<and> frames (results (endFrame (startFrame new_harness 1001 1002) 1015 1017)) = [16]
 \<and> cpuTimes (results (endFrame (startFrame new_harness 1001 1002) 1015 1017)) = [13]"
proof -
  have h: "\<not> isComplete new_harness" "isWarmingUp new_harness"
    "1001 - startTime new_harness > warmupDuration new_harness"
    by (simp_all add: new_harness_def)
  from warmup_exit_records_same_iteration[OF h, of 1002 1015 1017]
  show ?thesis by (simp add: new_harness_def resetResults_def)
qed

text \<open>
  Claim C3.  Once \<open>isComplete\<close> holds it holds after every further sequence of calls,
  the phase stays Complete, and the results object, hence every sample sequence and the
  sample count, is unchanged; \<open>endFrame\<close> in particular leaves the results alone.  The
  phase never moves backwards in the order Warmup, Recording, Complete.  The frame-count
  harness is absorbing in the same way: its \<open>endFrame\<close> returns the state as it is.
\<close>

theorem complete_is_absorbing:
  "(isComplete h \<longrightarrow>
      isComplete (exec h cs)
    \<and> phase_of (exec h cs) = Complete
    \<and> results (exec h cs) = results h
    \<and> length (frames (results (exec h cs))) = length (frames (results h))
    \<and> results (endFrame h m now) = results h
    \<and> isComplete (endFrame h m now))
 \<and> phase_rank (phase_of h) \<le> phase_rank (phase_of (exec h cs))
 \<and> (isComplete_fc g \<longrightarrow>
      isComplete_fc (exec_fc g ds)
    \<and> results_fc (exec_fc g ds) = results_fc g
    \<and> endFrame_fc g gpuTimeMs now = g)"
proof -
  have a: "isComplete h \<longrightarrow>
      isComplete (exec h cs)
    \<and> phase_of (exec h cs) = Complete
    \<and> results (exec h cs) = results h
    \<and> length (frames (results (exec h cs))) = length (frames (results h))
    \<and> results (endFrame h m now) = results h
    \<and> isComplete (endFrame h m now)"
    using exec_complete_fixed[of h cs] by (simp add: phase_of_def endFrame_idle)
  have b: "phase_rank (phase_of h) \<le> phase_rank (phase_of (exec h cs))"
    by (rule exec_phase_rank)
  have c: "isComplete_fc g \<longrightarrow>
      isComplete_fc (exec_fc g ds)
    \<and> results_fc (exec_fc g ds) = results_fc g
    \<and> endFrame_fc g gpuTimeMs now = g"
    using exec_fc_complete_fixed[of g ds] by (simp add: endFrame_fc_def)
  from a b c show ?thesis by blast
qed

theorem complete_is_absorbing_witness:
  "isComplete (exec new_harness
      [StartFrame 1001 1001, EndFrame 1017 1017, StartFrame 4002 4002, EndFrame 4018 4018])
 \<and> frames (results (exec (exec new_harness
      [StartFrame 1001 1001, EndFrame 1017 1017, StartFrame 4002 4002, EndFrame 4018 4018])
      [StartFrame 5000 5000, ResolveGPUTimestamp 0 5, EndFrame 5016 5016])) = [16, 3001]
 \<and> isComplete_fc (exec_fc (new_harness_fc\<lparr>targetFrames_fc := 2\<rparr>)
      [StartFrame_fc 0, EndFrame_fc (- 1) 16, StartFrame_fc 17, EndFrame_fc (- 1) 32])
 \<and> frames_fc (results_fc (exec_fc (exec_fc (new_harness_fc\<lparr>targetFrames_fc := 2\<rparr>)
      [StartFrame_fc 0, EndFrame_fc (- 1) 16, StartFrame_fc 17, EndFrame_fc (- 1) 32])
      [StartFrame_fc 40, EndFrame_fc 3 48])) = [16]"
proof -
  let ?A = "[StartFrame 1001 1001, EndFrame 1017 1017, StartFrame 4002 4002, EndFrame 4018 4018]"
  let ?B = "[StartFrame 5000 5000, ResolveGPUTimestamp 0 5, EndFrame 5016 5016]"
  let ?g = "new_harness_fc\<lparr>targetFrames_fc := 2\<rparr>"
  let ?C = "[StartFrame_fc 0, EndFrame_fc (- 1) 16, StartFrame_fc 17, EndFrame_fc (- 1) 32]"
  let ?D = "[StartFrame_fc 40, EndFrame_fc 3 48]"
  have s1: "startFrame new_harness 1001 1001 =
      new_harness\<lparr>isWarmingUp := False, startTime := 1001, lastFrameTime := 1001,
        uiStatus := ''Recording'', activeFrameCount := 0, cpuStartMark := Some 1001\<rparr>"
    by (simp add: startFrame_def new_harness_def)
  have c1: "isComplete (exec new_harness ?A)"
    by (simp add: exec_def s1 new_harness_def startFrame_def endFrame_def Let_def
        checkCompletion_cases stop_condition_def finalizeResults_fields)
  have f1: "frames (results (exec new_harness ?A)) = [16, 3001]"
    by (simp add: exec_def s1 new_harness_def resetResults_def startFrame_def endFrame_def Let_def
        checkCompletion_cases stop_condition_def finalizeResults_fields
        calculateStatistics_samples)
  have c2: "isComplete_fc (exec_fc ?g ?C)"
    by (simp add: exec_fc_def new_harness_fc_def startFrame_fc_def endFrame_fc_def Let_def
        checkCompletion_fc_def finalizeResults_fc_def)
  have f2: "frames_fc (results_fc (exec_fc ?g ?C)) = [16]"
    by (simp add: exec_fc_def new_harness_fc_def startFrame_fc_def endFrame_fc_def Let_def
        checkCompletion_fc_def finalizeResults_fc_def)
  from complete_is_absorbing[of "exec new_harness ?A" ?B _ _ "exec_fc ?g ?C" ?D] c1 c2 f1 f2
  show ?thesis by simp
qed

subsection \<open>Completion signals of the warm-up harness\<close>

lemma step_signals:
  assumes "\<not> isComplete h"
  shows "completionSignals (step h c) =
           (if isComplete (step h c) then completionSignals h + 1 else completionSignals h)"
proof (cases c)
  case (StartFrame now m)
  then show ?thesis using assms by (simp add: startFrame_fields)
next
  case (EndFrame m now)
  show ?thesis
  proof (cases "isWarmingUp h")
    case True
    then show ?thesis using assms EndFrame by (simp add: endFrame_idle)
  next
    case False
    then show ?thesis using assms EndFrame endFrame_recording(4)[of h m now] by simp
  qed
next
  case (ResolveGPUTimestamp s e)
  then show ?thesis using assms by (simp add: resolveGPUTimestamp_fields)
next
  case (ReportError msg)
  then show ?thesis using assms by (simp add: reportError_fields)
qed

lemma exec_signals:
  "\<not> isComplete h \<Longrightarrow>
     completionSignals (exec h cs) =
       (if isComplete (exec h cs) then completionSignals h + 1 else completionSignals h)"
proof (induction cs arbitrary: h)
  case Nil
  then show ?case by (simp add: exec_Nil)
next
  case (Cons c cs)
  show ?case
  proof (cases "isComplete (step h c)")
    case True
    then show ?thesis
      using exec_complete_fixed[of "step h c" cs] step_signals[OF Cons.prems, of c]
      by (simp add: exec_Cons)
  next
    case False
    then show ?thesis
      using Cons.IH[of "step h c"] step_signals[OF Cons.prems, of c]
      by (simp add: exec_Cons)
  qed
qed

lemma endFrame_completes:
  assumes "\<not> isComplete h" and "\<not> isWarmingUp h" and "isComplete (endFrame h m now)"
  shows "results (endFrame h m now) =
           calculateStatistics ((results h)
             \<lparr>frames := frames (results h) @ [now - lastFrameTime h],
              cpuTimes := cpuTimes (results h)
                @ [case cpuStartMark h of Some s \<Rightarrow> m - s | None \<Rightarrow> 0],
              totalTime := now - startTime h\<rparr>)"
    and "publishedResults (endFrame h m now)"
    and "uiStatus (endFrame h m now) = ''Complete''"
  using assms
  by (auto simp add: endFrame_def Let_def checkCompletion_cases finalizeResults_fields
      split: if_splits)

lemma endFrame_continues:
  assumes "\<not> isComplete h" and "\<not> isWarmingUp h" and "\<not> isComplete (endFrame h m now)"
  shows "publishedResults (endFrame h m now) = publishedResults h"
    and "totalTime (results (endFrame h m now)) = totalTime (results h)"
    and "meanFrameTime (results (endFrame h m now)) = meanFrameTime (results h)"
  using assms
  by (auto simp add: endFrame_def Let_def checkCompletion_cases finalizeResults_fields
      split: if_splits)

subsection \<open>Completion of the frame-count harness\<close>

lemma endFrame_fc_complete:
  assumes "\<not> isComplete_fc g"
  shows "isComplete_fc (endFrame_fc g gpuTimeMs now) =
           ((durationMode_fc g = ''time'' \<and> now - startTime_fc g > targetDuration_fc g * 1000)
          \<or> (durationMode_fc g = ''frames'' \<and> int (frameCount g) + 1 \<ge> targetFrames_fc g))"
    and "completionSignals_fc (endFrame_fc g gpuTimeMs now) =
           (if isComplete_fc (endFrame_fc g gpuTimeMs now) then completionSignals_fc g + 1
            else completionSignals_fc g)"
  using assms
  by (auto simp add: endFrame_fc_def Let_def checkCompletion_fc_def finalizeResults_fc_def)

lemma step_fc_signals:
  assumes "\<not> isComplete_fc g"
  shows "completionSignals_fc (step_fc g c) =
           (if isComplete_fc (step_fc g c) then completionSignals_fc g + 1
            else completionSignals_fc g)"
proof (cases c)
  case (StartFrame_fc now)
  then show ?thesis using assms by (simp add: startFrame_fc_def)
next
  case (EndFrame_fc gpuTimeMs now)
  then show ?thesis using endFrame_fc_complete(2)[OF assms, of gpuTimeMs now] by simp
next
  case (ReportError_fc msg)
  then show ?thesis using assms by (simp add: reportError_fc_def)
qed

lemma exec_fc_signals:
  "\<not> isComplete_fc g \<Longrightarrow>
     completionSignals_fc (exec_fc g cs) =
       (if isComplete_fc (exec_fc g cs) then completionSignals_fc g + 1
        else completionSignals_fc g)"
proof (induction cs arbitrary: g)
  case Nil
  then show ?case by (simp add: exec_fc_Nil)
next
  case (Cons c cs)
  show ?case
  proof (cases "isComplete_fc (step_fc g c)")
    case True
    then show ?thesis
      using exec_fc_complete_fixed[of "step_fc g c" cs] step_fc_signals[OF Cons.prems, of c]
      by (simp add: exec_fc_Cons)
  next
    case False
    then show ?thesis
      using Cons.IH[of "step_fc g c"] step_fc_signals[OF Cons.prems, of c]
      by (simp add: exec_fc_Cons)
  qed
qed

text \<open>
  Claim C6 as stated fails at the boundary of the time mode: a harness that entered
  Recording at 1001 with a target of 3 seconds is not complete after the \<open>endFrame\<close> at
  4001, although exactly 3000 ms, which is not less than the target, have elapsed.
\<close>

theorem time_mode_boundary_counterexample:
  "durationMode (startFrame new_harness 1001 1001) = ''time''
 \<and> phase_of (startFrame new_harness 1001 1001) = Recording
 \<and> 4001 - startTime (startFrame new_harness 1001 1001)
      \<ge> targetDuration (startFrame new_harness 1001 1001) * 1000
 \<and> \<not> isComplete (endFrame (startFrame new_harness 1001 1001) 4001 4001)
 \<and> completionSignals (endFrame (startFrame new_harness 1001 1001) 4001 4001) = 0"
proof -
  have s1: "startFrame new_harness 1001 1001 =
      new_harness\<lparr>isWarmingUp := False, startTime := 1001, lastFrameTime := 1001,
        uiStatus := ''Recording'', activeFrameCount := 0, cpuStartMark := Some 1001\<rparr>"
    by (simp add: startFrame_def new_harness_def)
  have r: "\<not> isComplete (startFrame new_harness 1001 1001)"
    "\<not> isWarmingUp (startFrame new_harness 1001 1001)"
    by (simp_all add: s1) (simp_all add: new_harness_def)
  have n: "\<not> isComplete (endFrame (startFrame new_harness 1001 1001) 4001 4001)"
    unfolding endFrame_recording(3)[OF r] by (simp add: s1) (simp add: new_harness_def)
  have c: "completionSignals (endFrame (startFrame new_harness 1001 1001) 4001 4001) = 0"
    using endFrame_recording(4)[OF r, of 4001 4001] n by (simp add: s1) (simp add: new_harness_def)
  show ?thesis using r n c by (simp add: phase_of_def s1) (simp add: new_harness_def)
qed

text \<open>
  Claim C6, as amended.  An \<open>endFrame\<close> in the Recording phase completes the harness
  exactly when, in mode \<open>time\<close>, the time since Recording began is strictly greater
  than \<open>targetDuration * 1000\<close> ms, or, in mode \<open>frames\<close>, the frame count including
  this frame has reached \<open>targetFrames\<close>.  On completion the phase is Complete, one
  completion signal is dispatched, the results are published, and the statistics are
  those of the full sample set, this frame's sample included; otherwise nothing is
  dispatched and no statistic is computed.  Over any sequence of calls from a harness not
  yet complete the signal is dispatched exactly once if the harness ends complete and
  never otherwise.  The frame-count harness has the same stop condition, on
  \<open>frameCount\<close>, and the same single dispatch.
\<close>

theorem completion_condition_and_single_finalization:
  "(\<not> isComplete h \<and> \<not> isWarmingUp h \<longrightarrow>
      (isComplete (endFrame h m now) \<longleftrightarrow>
          (durationMode h = ''time'' \<and> now - startTime h > targetDuration h * 1000)
        \<or> (durationMode h = ''frames'' \<and> int (activeFrameCount h) + 1 \<ge> targetFrames h))
    \<and> (isComplete (endFrame h m now) \<longrightarrow>
          phase_of (endFrame h m now) = Complete
        \<and> completionSignals (endFrame h m now) = completionSignals h + 1
        \<and> publishedResults (endFrame h m now)
        \<and> frames (results (endFrame h m now)) = frames (results h) @ [now - lastFrameTime h]
        \<and> totalTime (results (endFrame h m now)) = now - startTime h
        \<and> meanFrameTime (results (endFrame h m now)) = mean (frames (results (endFrame h m now)))
        \<and> stdFrameTime (results (endFrame h m now)) = stdDev (frames (results (endFrame h m now)))
        \<and> p95FrameTime (results (endFrame h m now)) = p95 (frames (results (endFrame h m now)))
        \<and> meanCpuTime (results (endFrame h m now)) = mean (cpuTimes (results (endFrame h m now))))
    \<and> (\<not> isComplete (endFrame h m now) \<longrightarrow>
          completionSignals (endFrame h m now) = completionSignals h
        \<and> publishedResults (endFrame h m now) = publishedResults h
        \<and> meanFrameTime (results (endFrame h m now)) = meanFrameTime (results h)))
 \<and> (\<not> isComplete h \<and> completionSignals h = 0 \<longrightarrow>
      completionSignals (exec h cs) = (if isComplete (exec h cs) then 1 else 0))
 \<and> (\<not> isComplete_fc g \<longrightarrow>
      (isComplete_fc (endFrame_fc g gpuTimeMs now) \<longleftrightarrow>
          (durationMode_fc g = ''time'' \<and> now - startTime_fc g > targetDuration_fc g * 1000)
        \<or> (durationMode_fc g = ''frames'' \<and> int (frameCount g) + 1 \<ge> targetFrames_fc g)))
 \<and> (\<not> isComplete_fc g \<and> completionSignals_fc g = 0 \<longrightarrow>
      completionSignals_fc (exec_fc g ds) = (if isComplete_fc (exec_fc g ds) then 1 else 0))"
proof -
  have a: "isComplete (endFrame h m now) \<longleftrightarrow>
          (durationMode h = ''time'' \<and> now - startTime h > targetDuration h * 1000)
        \<or> (durationMode h = ''frames'' \<and> int (activeFrameCount h) + 1 \<ge> targetFrames h)"
    if "\<not> isComplete h" "\<not> isWarmingUp h"
    using endFrame_recording(3)[OF that] .
  have b: "phase_of (endFrame h m now) = Complete
        \<and> completionSignals (endFrame h m now) = completionSignals h + 1
        \<and> publishedResults (endFrame h m now)
        \<and> frames (results (endFrame h m now)) = frames (results h) @ [now - lastFrameTime h]
        \<and> totalTime (results (endFrame h m now)) = now - startTime h
        \<and> meanFrameTime (results (endFrame h m now)) = mean (frames (results (endFrame h m now)))
        \<and> stdFrameTime (results (endFrame h m now)) = stdDev (frames (results (endFrame h m now)))
        \<and> p95FrameTime (results (endFrame h m now)) = p95 (frames (results (endFrame h m now)))
        \<and> meanCpuTime (results (endFrame h m now)) = mean (cpuTimes (results (endFrame h m now)))"
    if r: "\<not> isComplete h" "\<not> isWarmingUp h" and c: "isComplete (endFrame h m now)"
  proof -
    let ?r = "(results h)
             \<lparr>frames := frames (results h) @ [now - lastFrameTime h],
              cpuTimes := cpuTimes (results h)
                @ [case cpuStartMark h of Some s \<Rightarrow> m - s | None \<Rightarrow> 0],
              totalTime := now - startTime h\<rparr>"
    have res: "results (endFrame h m now) = calculateStatistics ?r"
      using endFrame_completes(1)[OF r c] .
    have fr: "frames ?r \<noteq> []" "cpuTimes ?r \<noteq> []" by simp_all
    have "phase_of (endFrame h m now) = Complete" using c by (simp add: phase_of_def)
    moreover have "completionSignals (endFrame h m now) = completionSignals h + 1"
      using endFrame_recording(4)[OF r, of m now] c by simp
    moreover have "publishedResults (endFrame h m now)" using endFrame_completes(2)[OF r c] .
    moreover have "frames (results (endFrame h m now)) = frames (results h) @ [now - lastFrameTime h]"
      using endFrame_recording(1)[OF r] .
    moreover have "totalTime (results (endFrame h m now)) = now - startTime h"
      by (simp add: res calculateStatistics_samples)
    moreover have "meanFrameTime (results (endFrame h m now)) = mean (frames (results (endFrame h m now)))"
      unfolding res calculateStatistics_samples using calculateStatistics_stats(1)[OF fr(1)] .
    moreover have "stdFrameTime (results (endFrame h m now)) = stdDev (frames (results (endFrame h m now)))"
      unfolding res calculateStatistics_samples using calculateStatistics_stats(2)[OF fr(1)] .
    moreover have "p95FrameTime (results (endFrame h m now)) = p95 (frames (results (endFrame h m now)))"
      unfolding res calculateStatistics_samples using calculateStatistics_stats(3)[OF fr(1)] .
    moreover have "meanCpuTime (results (endFrame h m now)) = mean (cpuTimes (results (endFrame h m now)))"
      unfolding res calculateStatistics_samples using calculateStatistics_cpu[OF fr(2)] .
    ultimately show ?thesis by blast
  qed
  have c: "completionSignals (endFrame h m now) = completionSignals h
        \<and> publishedResults (endFrame h m now) = publishedResults h
        \<and> meanFrameTime (results (endFrame h m now)) = meanFrameTime (results h)"
    if r: "\<not> isComplete h" "\<not> isWarmingUp h" and n: "\<not> isComplete (endFrame h m now)"
    using endFrame_recording(4)[OF r, of m now] endFrame_continues[OF r n] n by simp
  have d: "completionSignals (exec h cs) = (if isComplete (exec h cs) then 1 else 0)"
    if "\<not> isComplete h" "completionSignals h = 0"
    using exec_signals[OF that(1), of cs] that(2) by simp
  have e: "isComplete_fc (endFrame_fc g gpuTimeMs now) \<longleftrightarrow>
          (durationMode_fc g = ''time'' \<and> now - startTime_fc g > targetDuration_fc g * 1000)
        \<or> (durationMode_fc g = ''frames'' \<and> int (frameCount g) + 1 \<ge> targetFrames_fc g)"
    if "\<not> isComplete_fc g"
    using endFrame_fc_complete(1)[OF that] .
  have f: "completionSignals_fc (exec_fc g ds) = (if isComplete_fc (exec_fc g ds) then 1 else 0)"
    if "\<not> isComplete_fc g" "completionSignals_fc g = 0"
    using exec_fc_signals[OF that(1), of ds] that(2) by simp
  from a b c d e f show ?thesis by blast
qed


theorem completion_condition_and_single_finalization_witness:
  "isComplete (endFrame (startFrame new_harness 1001 1001) 4002 4003)
 \<and> completionSignals (endFrame (startFrame new_harness 1001 1001) 4002 4003) = 1
 \<and> meanFrameTime (results (endFrame (startFrame new_harness 1001 1001) 4002 4003)) = 3002
 \<and> \<not> isComplete (endFrame (startFrame new_harness 1001 1001) 1016 1017)
 \<and> completionSignals (endFrame (startFrame new_harness 1001 1001) 1016 1017) = 0
 \<and> completionSignals (exec new_harness
      [StartFrame 1001 1001, EndFrame 1017 1017, StartFrame 4002 4002, EndFrame 4018 4018,
       StartFrame 4020 4020, EndFrame 4030 4030]) = 1
 \<and> isComplete_fc (endFrame_fc (new_harness_fc\<lparr>targetFrames_fc := 1\<rparr>) (- 1) 16)
 \<and> completionSignals_fc (exec_fc (new_harness_fc\<lparr>targetFrames_fc := 1\<rparr>)
      [StartFrame_fc 0, EndFrame_fc (- 1) 16, StartFrame_fc 17, EndFrame_fc (- 1) 32]) = 1"
proof -
  let ?hr = "startFrame new_harness 1001 1001"
  let ?A = "[StartFrame 1001 1001, EndFrame 1017 1017, StartFrame 4002 4002, EndFrame 4018 4018,
       StartFrame 4020 4020, EndFrame 4030 4030]"
  let ?g = "new_harness_fc\<lparr>targetFrames_fc := 1\<rparr>"
  let ?C = "[StartFrame_fc 0, EndFrame_fc (- 1) 16, StartFrame_fc 17, EndFrame_fc (- 1) 32]"
  have s1: "?hr =
      new_harness\<lparr>isWarmingUp := False, startTime := 1001, lastFrameTime := 1001,
        uiStatus := ''Recording'', activeFrameCount := 0, cpuStartMark := Some 1001\<rparr>"
    by (simp add: startFrame_def new_harness_def)
  have r: "\<not> isComplete ?hr" "\<not> isWarmingUp ?hr" "durationMode ?hr = ''time''"
    "startTime ?hr = 1001" "lastFrameTime ?hr = 1001" "targetDuration ?hr = 3"
    "completionSignals ?hr = 0" "frames (results ?hr) = []"
    by (simp_all add: s1) (simp_all add: new_harness_def resetResults_def)
  have n: "\<not> isComplete new_harness" "completionSignals new_harness = 0"
    by (simp_all add: new_harness_def)
  have cA: "isComplete (exec new_harness ?A)"
    by (simp add: exec_def s1 new_harness_def startFrame_def endFrame_def Let_def
        checkCompletion_cases stop_condition_def finalizeResults_fields)
  have g: "\<not> isComplete_fc ?g" "completionSignals_fc ?g = 0" "durationMode_fc ?g = ''frames''"
    "frameCount ?g = 0" "targetFrames_fc ?g = 1"
    by (simp_all add: new_harness_fc_def)
  have cC: "isComplete_fc (exec_fc ?g ?C)"
    by (simp add: exec_fc_def new_harness_fc_def startFrame_fc_def endFrame_fc_def Let_def
        checkCompletion_fc_def finalizeResults_fc_def)
  have m: "mean [3002] = 3002" by (simp add: mean_def sum_arr_def)
  from completion_condition_and_single_finalization[of ?hr 4002 4003 "[]" ?g "- 1" "[]"]
    completion_condition_and_single_finalization[of ?hr 1016 1017 "[]" ?g "- 1" "[]"]
    completion_condition_and_single_finalization[of new_harness 0 16 ?A ?g "- 1" ?C]
    r n g cA cC m
  show ?thesis by simp
qed

section \<open>GPU durations\<close>

lemma step_unsupported:
  assumes "\<not> gpuSupportTimestamp h"
  shows "\<not> gpuSupportTimestamp (step h c) \<and> gpuTimes (results (step h c)) = gpuTimes (results h)"
  using assms
  by (cases c) (simp_all add: startFrame_fields endFrame_fields resolveGPUTimestamp_idle
      reportError_fields)

lemma exec_unsupported:
  "\<not> gpuSupportTimestamp h \<Longrightarrow>
     \<not> gpuSupportTimestamp (exec h cs) \<and> gpuTimes (results (exec h cs)) = gpuTimes (results h)"
proof (induction cs arbitrary: h)
  case Nil
  then show ?case by (simp add: exec_Nil)
next
  case (Cons c cs)
  from step_unsupported[OF Cons.prems, of c] Cons.IH[of "step h c"]
  show ?case by (simp add: exec_Cons)
qed

lemma phase_Recording: "phase_of h = Recording \<longleftrightarrow> \<not> isComplete h \<and> \<not> isWarmingUp h"
  by (simp add: phase_of_def)

lemma endFrame_fc_gpuTimes:
  "gpuTimes_fc (results_fc (endFrame_fc g gpuTimeMs now)) =
     (if \<not> isComplete_fc g \<and> frameCount g > 0 \<and> gpuTimeMs \<ge> 0
      then gpuTimes_fc (results_fc g) @ [gpuTimeMs] else gpuTimes_fc (results_fc g))"
  by (simp add: endFrame_fc_def Let_def checkCompletion_fc_def finalizeResults_fc_def)

text \<open>
  Claim C7.  \<open>resolveGPUTimestamp\<close> appends the computed duration to \<open>gpuTimes\<close> if
  and only if the timestamp capability is supported, the phase is Recording and the
  duration is not negative; a negative duration is returned but not recorded; outside
  these conditions the sentinel \<open>-1\<close> is returned.  No other method of the harness
  touches \<open>gpuTimes\<close>.  A device without the capability clears the flag; from then on
  the flag stays cleared over every sequence of calls, \<open>gpuTimes\<close> never changes,
  \<open>resolveGPUTimestamp\<close> returns \<open>-1\<close> and leaves the state alone, and the two marker
  methods leave the command encoder alone.  In the frame-count harness \<open>endFrame\<close>
  appends its argument exactly when the harness is not complete, the frame is not the
  first and the argument is not negative, so the sentinel is never recorded.
\<close>

theorem gpu_duration_recorded_iff:
  "gpuTimes (results (fst (resolveGPUTimestamp h tsStart tsEnd))) =
     (if gpuSupportTimestamp h \<and> phase_of h = Recording \<and> (tsEnd - tsStart) / 1000000 \<ge> 0
      then gpuTimes (results h) @ [(tsEnd - tsStart) / 1000000]
      else gpuTimes (results h))
 \<and> snd (resolveGPUTimestamp h tsStart tsEnd) =
     (if gpuSupportTimestamp h \<and> phase_of h = Recording then (tsEnd - tsStart) / 1000000
      else - 1)
 \<and> gpuTimes (results (startFrame h now markTime)) = gpuTimes (results h)
 \<and> gpuTimes (results (endFrame h markTime now)) = gpuTimes (results h)
 \<and> gpuTimes (results (reportError h message)) = gpuTimes (results h)
 \<and> \<not> gpuSupportTimestamp (initWebGPUTimestamps h False)
 \<and> (\<not> gpuSupportTimestamp h \<longrightarrow>
      \<not> gpuSupportTimestamp (exec h cs)
    \<and> gpuTimes (results (exec h cs)) = gpuTimes (results h)
    \<and> resolveGPUTimestamp h tsStart tsEnd = (h, - 1)
    \<and> beginGPUTimestamp h commandEncoder = commandEncoder
    \<and> endGPUTimestamp h commandEncoder = commandEncoder)
 \<and> gpuTimes_fc (results_fc (endFrame_fc g gpuTimeMs now)) =
     (if \<not> isComplete_fc g \<and> frameCount g > 0 \<and> gpuTimeMs \<ge> 0
      then gpuTimes_fc (results_fc g) @ [gpuTimeMs] else gpuTimes_fc (results_fc g))"
proof -
  have a: "gpuTimes (results (fst (resolveGPUTimestamp h tsStart tsEnd))) =
     (if gpuSupportTimestamp h \<and> phase_of h = Recording \<and> (tsEnd - tsStart) / 1000000 \<ge> 0
      then gpuTimes (results h) @ [(tsEnd - tsStart) / 1000000]
      else gpuTimes (results h))"
    unfolding phase_Recording resolveGPUTimestamp_gpuTimes by auto
  have b: "snd (resolveGPUTimestamp h tsStart tsEnd) =
     (if gpuSupportTimestamp h \<and> phase_of h = Recording then (tsEnd - tsStart) / 1000000
      else - 1)"
    unfolding phase_Recording by (simp add: resolveGPUTimestamp_def Let_def)
  have c: "gpuTimes (results (startFrame h now markTime)) = gpuTimes (results h)"
    "gpuTimes (results (endFrame h markTime now)) = gpuTimes (results h)"
    "gpuTimes (results (reportError h message)) = gpuTimes (results h)"
    by (simp_all add: startFrame_fields endFrame_fields reportError_fields)
  have d: "\<not> gpuSupportTimestamp (initWebGPUTimestamps h False)"
    by (simp add: initWebGPUTimestamps_def)
  have e: "\<not> gpuSupportTimestamp (exec h cs)
    \<and> gpuTimes (results (exec h cs)) = gpuTimes (results h)
    \<and> resolveGPUTimestamp h tsStart tsEnd = (h, - 1)
    \<and> beginGPUTimestamp h commandEncoder = commandEncoder
    \<and> endGPUTimestamp h commandEncoder = commandEncoder"
    if "\<not> gpuSupportTimestamp h"
    using exec_unsupported[OF that, of cs] that
    by (simp add: resolveGPUTimestamp_idle beginGPUTimestamp_def endGPUTimestamp_def)
  have f: "gpuTimes_fc (results_fc (endFrame_fc g gpuTimeMs now)) =
     (if \<not> isComplete_fc g \<and> frameCount g > 0 \<and> gpuTimeMs \<ge> 0
      then gpuTimes_fc (results_fc g) @ [gpuTimeMs] else gpuTimes_fc (results_fc g))"
    by (rule endFrame_fc_gpuTimes)
  from a b c d e f show ?thesis by blast
qed

theorem gpu_duration_recorded_iff_witness:
  "gpuTimes (results (fst (resolveGPUTimestamp
      (startFrame (initWebGPUTimestamps new_harness True) 1001 1001) 1000000 3000000))) = [2]
 \<and> gpuTimes (results (fst (resolveGPUTimestamp
      (startFrame (initWebGPUTimestamps new_harness True) 1001 1001) 3000000 1000000))) = []
 \<and> snd (resolveGPUTimestamp
      (startFrame (initWebGPUTimestamps new_harness True) 1001 1001) 3000000 1000000) = - 2
 \<and> gpuTimes (results (fst (resolveGPUTimestamp
      (initWebGPUTimestamps new_harness True) 1000000 3000000))) = []
 \<and> snd (resolveGPUTimestamp (initWebGPUTimestamps new_harness True) 1000000 3000000) = - 1
 \<and> gpuTimes (results (exec (initWebGPUTimestamps new_harness False)
      [StartFrame 1001 1001, ResolveGPUTimestamp 1000000 3000000, EndFrame 1017 1017])) = []
 \<and> snd (resolveGPUTimestamp
      (startFrame (initWebGPUTimestamps new_harness False) 1001 1001) 1000000 3000000) = - 1
 \<and> beginGPUTimestamp (startFrame (initWebGPUTimestamps new_harness False) 1001 1001) [] = []
 \<and> gpuTimes_fc (results_fc (endFrame_fc (new_harness_fc\<lparr>frameCount := 1\<rparr>) (- 1) 16)) = []
 \<and> gpuTimes_fc (results_fc (endFrame_fc (new_harness_fc\<lparr>frameCount := 1\<rparr>) 4 16)) = [4]"
proof -
  let ?on = "initWebGPUTimestamps new_harness True"
  let ?off = "initWebGPUTimestamps new_harness False"
  have on: "gpuSupportTimestamp ?on" "phase_of ?on = Warmup" "gpuTimes (results ?on) = []"
    "gpuSupportTimestamp (startFrame ?on 1001 1001)"
    "phase_of (startFrame ?on 1001 1001) = Recording"
    "gpuTimes (results (startFrame ?on 1001 1001)) = []"
    by (simp_all add: initWebGPUTimestamps_def new_harness_def resetResults_def startFrame_def
        phase_of_def)
  have off: "\<not> gpuSupportTimestamp ?off" "gpuTimes (results ?off) = []"
    "\<not> gpuSupportTimestamp (startFrame ?off 1001 1001)"
    by (simp_all add: initWebGPUTimestamps_def new_harness_def resetResults_def startFrame_def)
  have fc: "\<not> isComplete_fc (new_harness_fc\<lparr>frameCount := 1\<rparr>)"
    "gpuTimes_fc (results_fc (new_harness_fc\<lparr>frameCount := 1\<rparr>)) = []"
    by (simp_all add: new_harness_fc_def)
  let ?fc = "new_harness_fc\<lparr>frameCount := 1\<rparr>"
  from gpu_duration_recorded_iff[where h = "startFrame ?on 1001 1001" and tsStart = 1000000
        and tsEnd = 3000000 and now = 16 and cs = "[]" and g = ?fc and gpuTimeMs = "- 1"]
    gpu_duration_recorded_iff[where h = "startFrame ?on 1001 1001" and tsStart = 3000000
        and tsEnd = 1000000 and now = 16 and cs = "[]" and g = ?fc and gpuTimeMs = 4]
    gpu_duration_recorded_iff[where h = ?on and tsStart = 1000000
        and tsEnd = 3000000 and now = 16 and cs = "[]" and g = ?fc and gpuTimeMs = 4]
    gpu_duration_recorded_iff[where h = ?off and tsStart = 1000000
        and tsEnd = 3000000 and now = 16
        and cs = "[StartFrame 1001 1001, ResolveGPUTimestamp 1000000 3000000, EndFrame 1017 1017]"
        and g = ?fc and gpuTimeMs = 4]
    gpu_duration_recorded_iff[where h = "startFrame ?off 1001 1001" and tsStart = 1000000
        and tsEnd = 3000000 and now = 16 and cs = "[]" and commandEncoder = "[]"
        and g = ?fc and gpuTimeMs = 4]
    on off fc
  show ?thesis by simp
qed

section \<open>Reported errors and the render loop\<close>

lemma finalizeResults_same:
  "same_measurement h1 h2 \<Longrightarrow> same_measurement (finalizeResults h1 now) (finalizeResults h2 now)"
  by (simp add: same_measurement_def finalizeResults_def Let_def)

lemma checkCompletion_same:
  assumes "same_measurement h1 h2"
  shows "same_measurement (checkCompletion h1 now) (checkCompletion h2 now)"
proof -
  have s: "stop_condition h1 now = stop_condition h2 now"
    using assms by (simp add: same_measurement_def stop_condition_def)
  have c: "same_measurement (h1\<lparr>isComplete := True\<rparr>) (h2\<lparr>isComplete := True\<rparr>)"
    using assms by (simp add: same_measurement_def)
  show ?thesis using assms finalizeResults_same[OF c, of now] by (simp add: checkCompletion_cases s)
qed

lemma startFrame_same:
  "same_measurement h1 h2 \<Longrightarrow> same_measurement (startFrame h1 now m) (startFrame h2 now m)"
  by (simp add: same_measurement_def startFrame_def)

lemma resolveGPUTimestamp_same:
  "same_measurement h1 h2 \<Longrightarrow>
     same_measurement (fst (resolveGPUTimestamp h1 s e)) (fst (resolveGPUTimestamp h2 s e))"
  by (simp add: same_measurement_def resolveGPUTimestamp_def Let_def)

lemma reportError_same:
  "same_measurement h1 h2 \<Longrightarrow> same_measurement (reportError h1 msg) (reportError h2 msg)"
  "same_measurement (reportError h msg) h"
  by (simp_all add: same_measurement_def reportError_def)


lemma endFrame_same:
  assumes "same_measurement h1 h2"
  shows "same_measurement (endFrame h1 m now) (endFrame h2 m now)"
proof (cases "isComplete h2 \<or> isWarmingUp h2")
  case True
  then have "isComplete h1 \<or> isWarmingUp h1"
    using assms by (simp add: same_measurement_def)
  then show ?thesis
    using True assms by (simp add: endFrame_idle same_measurement_def)
next
  case False
  then have g: "\<not> isComplete h1" "\<not> isWarmingUp h1" "\<not> isComplete h2" "\<not> isWarmingUp h2"
    using assms by (simp_all add: same_measurement_def)
  from g show ?thesis
    apply (simp add: endFrame_def Let_def)
    apply (intro conjI impI checkCompletion_same)
    using assms apply (simp_all add: same_measurement_def)
    done
qed

lemma step_same:
  "same_measurement h1 h2 \<Longrightarrow> same_measurement (step h1 c) (step h2 c)"
  by (cases c)
    (simp_all add: startFrame_same endFrame_same resolveGPUTimestamp_same reportError_same)

lemma exec_same:
  "same_measurement h1 h2 \<Longrightarrow> same_measurement (exec h1 cs) (exec h2 cs)"
  by (induction cs arbitrary: h1 h2) (simp_all add: exec_Nil exec_Cons step_same)

lemma exec_after_reportError:
  "same_measurement (exec (reportError h msg) cs) (exec h cs)"
  by (rule exec_same) (rule reportError_same)

lemma run_stopped: "\<not> isRunning s \<Longrightarrow> run s inp = s"
  by (simp add: run_def)

lemma run_loop_stopped: "\<not> isRunning s \<Longrightarrow> run_loop s inps = s"
  by (induction inps) (simp_all add: run_loop_def run_stopped)

lemma run_failed:
  assumes "isRunning s"
  shows "run s (now, markTime, RenderFailed msg)
           = \<lparr>harness = reportError (startFrame (harness s) now markTime) msg, isRunning = False\<rparr>"
  using assms by (simp add: run_def stop_def Let_def)

text \<open>
  Claim C8 as stated fails: \<open>reportError\<close> on a harness in the Recording phase does not
  stop it.  The \<open>startFrame\<close> and \<open>endFrame\<close> calls that follow append a sample to
  \<open>frames\<close> and to \<open>cpuTimes\<close>.
\<close>

theorem report_error_counterexample:
  "frames (results (reportError (startFrame new_harness 1001 1001) ''render failed'')) = []
 \<and> frames (results (exec (reportError (startFrame new_harness 1001 1001) ''render failed'')
      [StartFrame 1010 1010, EndFrame 1020 1020])) = [19]
 \<and> cpuTimes (results (exec (reportError (startFrame new_harness 1001 1001) ''render failed'')
      [StartFrame 1010 1010, EndFrame 1020 1020])) = [10]"
proof -
  let ?h = "reportError (startFrame new_harness 1001 1001) ''render failed''"
  have h: "\<not> isComplete ?h" "\<not> isWarmingUp ?h" "lastFrameTime ?h = 1001"
    "frames (results ?h) = []" "cpuTimes (results ?h) = []"
    by (simp_all add: reportError_def new_harness_def resetResults_def startFrame_def)
  let ?h1 = "startFrame ?h 1010 1010"
  have h1: "\<not> isComplete ?h1" "\<not> isWarmingUp ?h1" "lastFrameTime ?h1 = 1001"
    "frames (results ?h1) = []" "cpuTimes (results ?h1) = []" "cpuStartMark ?h1 = Some 1010"
    using h by (simp_all add: startFrame_def)
  have "frames (results (endFrame ?h1 1020 1020)) = [19]"
    "cpuTimes (results (endFrame ?h1 1020 1020)) = [10]"
    using endFrame_recording(1,2)[OF h1(1,2), of 1020 1020] h1 by simp_all
  then show ?thesis using h by (simp add: exec_def)
qed

text \<open>
  Claim C8, as amended.  \<open>reportError\<close> records the message (in
  \<open>window.__BENCHMARK_ERROR__\<close> and in the error overlay) and changes neither the
  phase nor the results: the harness has no Errored state, and the calls that follow
  it produce the results and the phase they would have produced without it.  Samples stop
  because the render loop stops: when \<open>render\<close> fails in a running scenario, \<open>run\<close>
  reports the error and clears \<open>isRunning\<close>, the results are those from before the
  iteration, and no later iteration changes the scenario or its harness.
\<close>

theorem report_error_stops_render_loop:
  "phase_of (reportError h message) = phase_of h
 \<and> results (reportError h message) = results h
 \<and> benchmarkError (reportError h message) = Some message
 \<and> errorOverlay (reportError h message) = Some message
 \<and> results (exec (reportError h message) cs) = results (exec h cs)
 \<and> phase_of (exec (reportError h message) cs) = phase_of (exec h cs)
 \<and> (isRunning s \<longrightarrow>
      \<not> isRunning (run s (now, markTime, RenderFailed message))
    \<and> benchmarkError (harness (run s (now, markTime, RenderFailed message))) = Some message
    \<and> results (harness (run s (now, markTime, RenderFailed message))) = results (harness s)
    \<and> run_loop (run s (now, markTime, RenderFailed message)) inps
        = run s (now, markTime, RenderFailed message))"
proof -
  have a: "phase_of (reportError h message) = phase_of h"
    "results (reportError h message) = results h"
    "benchmarkError (reportError h message) = Some message"
    "errorOverlay (reportError h message) = Some message"
    by (simp_all add: phase_of_def reportError_fields)
  have b: "results (exec (reportError h message) cs) = results (exec h cs)"
    "phase_of (exec (reportError h message) cs) = phase_of (exec h cs)"
    using exec_after_reportError[of h message cs]
    by (simp_all add: phase_of_def same_measurement_def)
  have c: "\<not> isRunning (run s (now, markTime, RenderFailed message))
    \<and> benchmarkError (harness (run s (now, markTime, RenderFailed message))) = Some message
    \<and> results (harness (run s (now, markTime, RenderFailed message))) = results (harness s)
    \<and> run_loop (run s (now, markTime, RenderFailed message)) inps
        = run s (now, markTime, RenderFailed message)"
    if r: "isRunning s"
  proof -
    have st: "\<not> isRunning (run s (now, markTime, RenderFailed message))"
      by (simp add: run_failed[OF r])
    moreover have "benchmarkError (harness (run s (now, markTime, RenderFailed message))) = Some message"
      by (simp add: run_failed[OF r] reportError_fields)
    moreover have "results (harness (run s (now, markTime, RenderFailed message))) = results (harness s)"
      by (simp add: run_failed[OF r] reportError_fields startFrame_fields)
    moreover have "run_loop (run s (now, markTime, RenderFailed message)) inps
        = run s (now, markTime, RenderFailed message)"
      using st by (rule run_loop_stopped)
    ultimately show ?thesis by blast
  qed
  from a b c show ?thesis by blast
qed

theorem report_error_stops_render_loop_witness:
  "frames (results (harness (run_loop \<lparr>harness = new_harness, isRunning = True\<rparr>
      [(1001, 1001, Rendered None 1017 1017),
       (1018, 1018, RenderFailed ''device lost''),
       (1034, 1034, Rendered None 1050 1050),
       (1051, 1051, Rendered None 1067 1067)]))) = [16]
 \<and> benchmarkError (harness (run_loop \<lparr>harness = new_harness, isRunning = True\<rparr>
      [(1001, 1001, Rendered None 1017 1017),
       (1018, 1018, RenderFailed ''device lost''),
       (1034, 1034, Rendered None 1050 1050),
       (1051, 1051, Rendered None 1067 1067)])) = Some ''device lost''
 \<and> frames (results (exec (reportError (startFrame new_harness 1001 1001) ''device lost'')
      [EndFrame 1017 1017])) = [16]"
proof -
  let ?s0 = "\<lparr>harness = new_harness, isRunning = True\<rparr>"
  let ?s1 = "run ?s0 (1001, 1001, Rendered None 1017 1017)"
  let ?rest = "[(1034, 1034, Rendered None 1050 1050), (1051, 1051, Rendered None 1067 1067)]"
  let ?hr = "startFrame new_harness 1001 1001"
  have hr: "\<not> isComplete ?hr" "\<not> isWarmingUp ?hr" "lastFrameTime ?hr = 1001"
    "frames (results ?hr) = []"
    by (simp_all add: new_harness_def resetResults_def startFrame_def)
  have s1: "?s1 = \<lparr>harness = endFrame ?hr 1017 1017, isRunning = True\<rparr>"
    by (simp add: run_def Let_def)
  have r1: "isRunning ?s1" by (simp add: s1)
  have f1: "frames (results (harness ?s1)) = [16]"
    using endFrame_recording(1)[OF hr(1,2), of 1017 1017] hr by (simp add: s1)
  have f2: "frames (results (exec ?hr [EndFrame 1017 1017])) = [16]"
    using endFrame_recording(1)[OF hr(1,2), of 1017 1017] hr by (simp add: exec_def)
  have l: "run_loop ?s0 ((1001, 1001, Rendered None 1017 1017)
        # (1018, 1018, RenderFailed ''device lost'') # ?rest)
      = run_loop (run ?s1 (1018, 1018, RenderFailed ''device lost'')) ?rest"
    by (simp add: run_loop_def)
  from report_error_stops_render_loop[where s = ?s1 and now = 1018 and markTime = 1018
      and message = "''device lost''" and inps = ?rest and h = ?hr and cs = "[EndFrame 1017 1017]"]
    r1 f1 f2
  show ?thesis unfolding l by simp
qed

section \<open>The frame-count harness in mode frames\<close>

lemma endFrame_calls_simps:
  "endFrame_calls [] = 0"
  "endFrame_calls (StartFrame_fc now # cs) = endFrame_calls cs"
  "endFrame_calls (EndFrame_fc gpuTimeMs now # cs) = Suc (endFrame_calls cs)"
  "endFrame_calls (ReportError_fc msg # cs) = endFrame_calls cs"
  by (simp_all add: endFrame_calls_def)

lemma endFrame_fc_counts:
  assumes "\<not> isComplete_fc g"
  shows "frameCount (endFrame_fc g gpuTimeMs now) = frameCount g + 1"
    and "durationMode_fc (endFrame_fc g gpuTimeMs now) = durationMode_fc g"
    and "targetFrames_fc (endFrame_fc g gpuTimeMs now) = targetFrames_fc g"
    and "frames_fc (results_fc (endFrame_fc g gpuTimeMs now)) =
           (if frameCount g > 0 then frames_fc (results_fc g) @ [now - lastFrameTime_fc g]
            else frames_fc (results_fc g))"
  using assms
  by (simp_all add: endFrame_fc_def Let_def checkCompletion_fc_def finalizeResults_fc_def)

lemma step_fc_idle_fields:
  "frameCount (startFrame_fc g now) = frameCount g"
  "durationMode_fc (startFrame_fc g now) = durationMode_fc g"
  "targetFrames_fc (startFrame_fc g now) = targetFrames_fc g"
  "results_fc (startFrame_fc g now) = results_fc g"
  "isComplete_fc (startFrame_fc g now) = isComplete_fc g"
  "frameCount (reportError_fc g msg) = frameCount g"
  "durationMode_fc (reportError_fc g msg) = durationMode_fc g"
  "targetFrames_fc (reportError_fc g msg) = targetFrames_fc g"
  "results_fc (reportError_fc g msg) = results_fc g"
  "isComplete_fc (reportError_fc g msg) = isComplete_fc g"
  by (simp_all add: startFrame_fc_def reportError_fc_def)

lemma step_fc_complete_frameCount:
  "isComplete_fc g \<Longrightarrow> frameCount (step_fc g c) = frameCount g"
  by (cases c) (simp_all add: step_fc_idle_fields endFrame_fc_def)

lemma exec_fc_complete_frameCount:
  "isComplete_fc g \<Longrightarrow> frameCount (exec_fc g cs) = frameCount g"
proof (induction cs arbitrary: g)
  case Nil
  then show ?case by (simp add: exec_fc_Nil)
next
  case (Cons c cs)
  from step_fc_complete_fixed[OF Cons.prems, of c] step_fc_complete_frameCount[OF Cons.prems, of c]
    Cons.IH[of "step_fc g c"]
  show ?case by (simp add: exec_fc_Cons)
qed

lemma exec_fc_frames_mode:
  assumes "durationMode_fc g = ''frames''" and "\<not> isComplete_fc g"
    and "int (frameCount g) < targetFrames_fc g"
    and "length (frames_fc (results_fc g)) = frameCount g - 1"
  shows "length (frames_fc (results_fc (exec_fc g cs))) = frameCount (exec_fc g cs) - 1
       \<and> (isComplete_fc (exec_fc g cs) \<longrightarrow>
            int (frameCount (exec_fc g cs)) = targetFrames_fc g
          \<and> frameCount (exec_fc g cs) \<le> frameCount g + endFrame_calls cs)
       \<and> (\<not> isComplete_fc (exec_fc g cs) \<longrightarrow>
            frameCount (exec_fc g cs) = frameCount g + endFrame_calls cs
          \<and> int (frameCount (exec_fc g cs)) < targetFrames_fc g)"
  using assms
proof (induction cs arbitrary: g)
  case Nil
  then show ?case by (simp add: exec_fc_Nil endFrame_calls_simps)
next
  case (Cons c cs)
  show ?case
  proof (cases c)
    case (StartFrame_fc now)
    then show ?thesis
      using Cons.IH[of "startFrame_fc g now"] Cons.prems
      by (auto simp add: exec_fc_Cons step_fc_idle_fields endFrame_calls_simps)
  next
    case (ReportError_fc msg)
    then show ?thesis
      using Cons.IH[of "reportError_fc g msg"] Cons.prems
      by (auto simp add: exec_fc_Cons step_fc_idle_fields endFrame_calls_simps)
  next
    case (EndFrame_fc gpuTimeMs now)
    let ?g = "endFrame_fc g gpuTimeMs now"
    note n = Cons.prems(2)
    have fc: "frameCount ?g = frameCount g + 1" "durationMode_fc ?g = ''frames''"
      "targetFrames_fc ?g = targetFrames_fc g"
      using endFrame_fc_counts(1,2,3)[OF n, of gpuTimeMs now] Cons.prems(1) by simp_all
    have len: "length (frames_fc (results_fc ?g)) = frameCount ?g - 1"
      using endFrame_fc_counts(4)[OF n, of gpuTimeMs now] Cons.prems(4) fc(1) by simp
    have comp: "isComplete_fc ?g \<longleftrightarrow> int (frameCount g) + 1 \<ge> targetFrames_fc g"
      using endFrame_fc_complete(1)[OF n, of gpuTimeMs now] Cons.prems(1) by simp
    show ?thesis
    proof (cases "isComplete_fc ?g")
      case True
      then have eq: "int (frameCount ?g) = targetFrames_fc g"
        using comp Cons.prems(3) fc(1) by simp
      from exec_fc_complete_fixed[OF True, of cs] exec_fc_complete_frameCount[OF True, of cs]
      show ?thesis using EndFrame_fc len eq fc(1)
        by (auto simp add: exec_fc_Cons endFrame_calls_simps)
    next
      case False
      then have lt: "int (frameCount ?g) < targetFrames_fc ?g"
        using comp fc by simp
      from Cons.IH[OF fc(2) False lt len]
      show ?thesis using EndFrame_fc fc by (auto simp add: exec_fc_Cons endFrame_calls_simps)
    qed
  qed
qed

text \<open>
  Claim C10.  In the frame-count harness the \<open>endFrame\<close> call made at \<open>frameCount = 0\<close>
  appends nothing to \<open>frames\<close> and still raises \<open>frameCount\<close> to 1.  For a fresh
  harness in mode \<open>frames\<close> with a target of at least one frame, a run is complete
  exactly when it has made at least \<open>targetFrames\<close> calls of \<open>endFrame\<close>, and every
  complete run holds exactly \<open>targetFrames - 1\<close> entries in \<open>frames\<close>, with
  \<open>frameCount = targetFrames\<close>.
\<close>

theorem frames_mode_records_one_less:
  "(\<not> isComplete_fc g \<and> frameCount g = 0 \<longrightarrow>
      frames_fc (results_fc (endFrame_fc g gpuTimeMs now)) = frames_fc (results_fc g)
    \<and> frameCount (endFrame_fc g gpuTimeMs now) = 1)
 \<and> (\<not> isComplete_fc g \<and> frameCount g = 0 \<and> frames_fc (results_fc g) = []
      \<and> durationMode_fc g = ''frames'' \<and> 1 \<le> targetFrames_fc g \<longrightarrow>
      (isComplete_fc (exec_fc g cs) \<longleftrightarrow> targetFrames_fc g \<le> int (endFrame_calls cs))
    \<and> (isComplete_fc (exec_fc g cs) \<longrightarrow>
          int (length (frames_fc (results_fc (exec_fc g cs)))) = targetFrames_fc g - 1
        \<and> int (frameCount (exec_fc g cs)) = targetFrames_fc g))"
proof -
  have a: "frames_fc (results_fc (endFrame_fc g gpuTimeMs now)) = frames_fc (results_fc g)
    \<and> frameCount (endFrame_fc g gpuTimeMs now) = 1"
    if "\<not> isComplete_fc g" "frameCount g = 0"
    using endFrame_fc_counts(1,4)[OF that(1), of gpuTimeMs now] that(2) by simp
  have b: "(isComplete_fc (exec_fc g cs) \<longleftrightarrow> targetFrames_fc g \<le> int (endFrame_calls cs))
    \<and> (isComplete_fc (exec_fc g cs) \<longrightarrow>
          int (length (frames_fc (results_fc (exec_fc g cs)))) = targetFrames_fc g - 1
        \<and> int (frameCount (exec_fc g cs)) = targetFrames_fc g)"
    if h: "\<not> isComplete_fc g" "frameCount g = 0" "frames_fc (results_fc g) = []"
      "durationMode_fc g = ''frames''" "1 \<le> targetFrames_fc g"
  proof -
    have lt: "int (frameCount g) < targetFrames_fc g" using h(2,5) by simp
    have len: "length (frames_fc (results_fc g)) = frameCount g - 1" using h(2,3) by simp
    from exec_fc_frames_mode[OF h(4) h(1) lt len, of cs] h(2) h(5)
    show ?thesis by auto
  qed
  from a b show ?thesis by blast
qed

theorem frames_mode_records_one_less_witness:
  "isComplete_fc (exec_fc (new_harness_fc\<lparr>targetFrames_fc := 3\<rparr>)
      [StartFrame_fc 0, EndFrame_fc (- 1) 16, StartFrame_fc 17, EndFrame_fc (- 1) 32,
       StartFrame_fc 33, EndFrame_fc (- 1) 48, StartFrame_fc 49, EndFrame_fc (- 1) 64])
 \<and> length (frames_fc (results_fc (exec_fc (new_harness_fc\<lparr>targetFrames_fc := 3\<rparr>)
      [StartFrame_fc 0, EndFrame_fc (- 1) 16, StartFrame_fc 17, EndFrame_fc (- 1) 32,
       StartFrame_fc 33, EndFrame_fc (- 1) 48, StartFrame_fc 49, EndFrame_fc (- 1) 64]))) = 2
 \<and> frames_fc (results_fc (endFrame_fc new_harness_fc (- 1) 16)) = []
 \<and> frameCount (endFrame_fc new_harness_fc (- 1) 16) = 1"
proof -
  let ?g = "new_harness_fc\<lparr>targetFrames_fc := 3\<rparr>"
  let ?cs = "[StartFrame_fc 0, EndFrame_fc (- 1) 16, StartFrame_fc 17, EndFrame_fc (- 1) 32,
       StartFrame_fc 33, EndFrame_fc (- 1) 48, StartFrame_fc 49, EndFrame_fc (- 1) 64]"
  have g: "\<not> isComplete_fc ?g" "frameCount ?g = 0" "frames_fc (results_fc ?g) = []"
    "durationMode_fc ?g = ''frames''" "1 \<le> targetFrames_fc ?g" "targetFrames_fc ?g = 3"
    by (simp_all add: new_harness_fc_def)
  have n: "\<not> isComplete_fc new_harness_fc" "frameCount new_harness_fc = 0"
    "frames_fc (results_fc new_harness_fc) = []"
    by (simp_all add: new_harness_fc_def)
  have e: "endFrame_calls ?cs = 4" by (simp add: endFrame_calls_def)
  from frames_mode_records_one_less[where g = ?g and cs = ?cs]
    frames_mode_records_one_less[where g = new_harness_fc and gpuTimeMs = "- 1" and now = 16]
    g n e
  show ?thesis by simp
qed

section \<open>The sweep: failed trials and failed configuration points\<close>

lemma run_trials_no_navigation_failure:
  assumes "\<forall>k\<in>set ns. \<forall>e. outcome k \<noteq> NavigationFailed e"
  shows "run_trials outcome ns currentTestRuns = Inr (currentTestRuns @ successful_runs outcome ns)"
  using assms
proof (induction ns arbitrary: currentTestRuns)
  case Nil
  then show ?case by (simp add: successful_runs_def)
next
  case (Cons n ns)
  then show ?case
    by (cases "outcome n") (simp_all add: successful_runs_def)
qed

lemma run_trials_navigation_failure:
  "outcome n = NavigationFailed e \<Longrightarrow> run_trials outcome (n # ns) currentTestRuns = Inl e"
  by simp

lemma successful_runs_all_rejected:
  assumes "\<forall>k\<in>set ns. \<exists>e. outcome k = Rejected e"
  shows "successful_runs outcome ns = []"
  using assms by (induction ns) (auto simp: successful_runs_def)

lemma length_successful_runs: "length (successful_runs outcome ns) \<le> length ns"
proof (induction ns)
  case Nil
  then show ?case by (simp add: successful_runs_def)
next
  case (Cons n ns)
  then show ?case by (cases "outcome n") (simp_all add: successful_runs_def)
qed

lemma set_run_numbers: "set [1 ..< n + 1] = {1..n}"
  by auto

lemma sweep_no_navigation_failure:
  assumes "\<forall>p\<in>set ps. \<forall>k\<in>{1..n}. \<forall>e. env p k \<noteq> NavigationFailed e"
  shows "sweep env n ps data =
           Inr (data @ map (\<lambda>p. aggregate_runs (fst p) (fst (snd p)) (snd (snd p))
                  (successful_runs (env p) [1 ..< n + 1])) ps)"
  using assms
proof (induction ps arbitrary: data)
  case Nil
  then show ?case by simp
next
  case (Cons p ps)
  obtain api scenario count' where p: "p = (api, scenario, count')" by (cases p) auto
  have "\<forall>k\<in>set [1 ..< n + 1]. \<forall>e. env p k \<noteq> NavigationFailed e"
    using Cons.prems unfolding set_run_numbers by simp
  then have r: "run_trials (env p) [1 ..< n + 1] [] = Inr (successful_runs (env p) [1 ..< n + 1])"
    using run_trials_no_navigation_failure[of "[1 ..< n + 1]" "env p" "[]"] by simp
  have "\<forall>q\<in>set ps. \<forall>k\<in>{1..n}. \<forall>e. env q k \<noteq> NavigationFailed e"
    using Cons.prems by simp
  from Cons.IH[OF this] r show ?case by (simp add: p)
qed

lemma sweep_navigation_failure:
  assumes "0 < n" and "env (api, scenario, count') 1 = NavigationFailed e"
  shows "sweep env n ((api, scenario, count') # ps) data = Inl e"
proof -
  have lt: "1 < n + 1" using assms(1) by simp
  from upt_conv_Cons[OF lt] obtain ns where ns: "[1 ..< n + 1] = 1 # ns" by blast
  have "run_trials (env (api, scenario, count')) [1 ..< n + 1] [] = Inl e"
    unfolding ns using assms(2) by simp
  then show ?thesis by (simp only: sweep.simps sum.case)
qed

lemma entry_point_aggregate_runs:
  "entry_point (aggregate_runs api scenario count' runs) = (api, scenario, count')"
  by (simp add: entry_point_def aggregate_runs_def)

text \<open>
  Claim C9 as stated fails in one detail: the entry pushed for a configuration point
  whose ten trials all timed out has no property \<open>runsSuccessful\<close>.  Reading it gives
  \<open>undefined\<close>, not \<open>0\<close>.
\<close>

theorem all_failed_entry_counterexample:
  "sweep (\<lambda>p k. Rejected ''Timeout (120s)'') NUM_RUNS [(''webgl'', ''A'', 1)] []
     = Inr [Failure \<lparr>api_f = ''webgl'', scenario_f = ''A'', count_f = 1,
                     error_f = ''All runs failed''\<rparr>]
 \<and> entry_runsSuccessful (Failure \<lparr>api_f = ''webgl'', scenario_f = ''A'', count_f = 1,
                     error_f = ''All runs failed''\<rparr>) = None
 \<and> entry_runsSuccessful (Failure \<lparr>api_f = ''webgl'', scenario_f = ''A'', count_f = 1,
                     error_f = ''All runs failed''\<rparr>) \<noteq> Some 0"
  by (simp add: NUM_RUNS_def upt_rec aggregate_runs_def entry_runsSuccessful_def)

text \<open>
  Claim C9, as amended.  As long as no navigation fails, the sweep returns one entry per
  configuration point, in sweep order, whatever the trials of the earlier points did.
  A point all of whose trials were rejected collects no run, and its entry is the failure
  object: the properties \<open>api\<close>, \<open>scenario\<close>, \<open>count\<close> and the marker
  \<open>error = "All runs failed"\<close>, without \<open>runsSuccessful\<close> and without any statistic;
  its CSV row has the eight statistics cells empty and the marker in the last column.
  An entry with at least one successful run carries \<open>runsSuccessful\<close>, the number of
  these runs, which is at most the number of trials, and no marker.
\<close>

theorem all_failed_point_is_marked_and_sweep_continues:
  "((\<forall>p\<in>set ps. \<forall>k\<in>{1..n}. \<forall>e. env p k \<noteq> NavigationFailed e) \<longrightarrow>
      sweep env n ps [] =
        Inr (map (\<lambda>p. aggregate_runs (fst p) (fst (snd p)) (snd (snd p))
               (successful_runs (env p) [1 ..< n + 1])) ps)
    \<and> map entry_point (map (\<lambda>p. aggregate_runs (fst p) (fst (snd p)) (snd (snd p))
               (successful_runs (env p) [1 ..< n + 1])) ps) = ps)
 \<and> ((\<forall>k\<in>{1..n}. \<exists>e. env (api, scenario, count') k = Rejected e) \<longrightarrow>
      successful_runs (env (api, scenario, count')) [1 ..< n + 1] = [])
 \<and> aggregate_runs api scenario count' [] =
      Failure \<lparr>api_f = api, scenario_f = scenario, count_f = count',
               error_f = ''All runs failed''\<rparr>
 \<and> entry_error (aggregate_runs api scenario count' []) = Some ''All runs failed''
 \<and> entry_runsSuccessful (aggregate_runs api scenario count' []) = None
 \<and> entry_meanFps (aggregate_runs api scenario count' []) = None
 \<and> csv_row (aggregate_runs api scenario count' []) =
      Inr [Text api, Text scenario, Count count',
           Blank, Blank, Blank, Blank, Blank, Blank, Blank, Blank, Text ''All runs failed'']
 \<and> (runs \<noteq> [] \<longrightarrow>
      entry_runsSuccessful (aggregate_runs api scenario count' runs) = Some (length runs)
    \<and> entry_error (aggregate_runs api scenario count' runs) = None)
 \<and> length (successful_runs (env (api, scenario, count')) [1 ..< n + 1]) \<le> n"
proof -
  let ?f = "\<lambda>p. aggregate_runs (fst p) (fst (snd p)) (snd (snd p))
               (successful_runs (env p) [1 ..< n + 1])"
  have a: "sweep env n ps [] = Inr (map ?f ps)"
    if "\<forall>p\<in>set ps. \<forall>k\<in>{1..n}. \<forall>e. env p k \<noteq> NavigationFailed e"
    using sweep_no_navigation_failure[OF that, of "[]"] by simp
  have b: "map entry_point (map ?f ps) = ps"
    by (induction ps) (simp_all add: entry_point_aggregate_runs)
  have c: "successful_runs (env (api, scenario, count')) [1 ..< n + 1] = []"
    if "\<forall>k\<in>{1..n}. \<exists>e. env (api, scenario, count') k = Rejected e"
    using that by (intro successful_runs_all_rejected) (simp only: set_run_numbers)
  have d: "aggregate_runs api scenario count' [] =
      Failure \<lparr>api_f = api, scenario_f = scenario, count_f = count',
               error_f = ''All runs failed''\<rparr>"
    by (simp add: aggregate_runs_def)
  have e: "entry_error (aggregate_runs api scenario count' []) = Some ''All runs failed''"
    "entry_runsSuccessful (aggregate_runs api scenario count' []) = None"
    "entry_meanFps (aggregate_runs api scenario count' []) = None"
    by (simp_all add: d entry_error_def entry_runsSuccessful_def entry_meanFps_def)
  have f: "csv_row (aggregate_runs api scenario count' []) =
      Inr [Text api, Text scenario, Count count',
           Blank, Blank, Blank, Blank, Blank, Blank, Blank, Blank, Text ''All runs failed'']"
    by (simp add: d csv_row_def)
  have g: "entry_runsSuccessful (aggregate_runs api scenario count' runs) = Some (length runs)
    \<and> entry_error (aggregate_runs api scenario count' runs) = None"
    if "runs \<noteq> []"
    using that by (simp add: aggregate_runs_def entry_runsSuccessful_def entry_error_def)
  have h: "length (successful_runs (env (api, scenario, count')) [1 ..< n + 1]) \<le> n"
  proof -
    have "length [1 ..< n + 1] = n" by simp
    then show ?thesis
      using length_successful_runs[of "env (api, scenario, count')" "[1 ..< n + 1]"]
      by (simp only:)
  qed
  from a b c d e f g h show ?thesis by blast
qed

theorem all_failed_point_is_marked_and_sweep_continues_witness:
  "sweep (\<lambda>p k. if p = (''webgl'', ''A'', 1) then Rejected ''Timeout (120s)''
                 else if k = 1 then Resolved \<lparr>fps_t = 60, meanFrameTime_t = 16,
                        stdFrameTime_t = 1, p95FrameTime_t = 18, meanCpuTime_t = 2,
                        meanGpuTime_t = None, initTime_t = 40\<rparr>
                 else Rejected ''Timeout (120s)'')
     2 [(''webgl'', ''A'', 1), (''webgpu'', ''B'', 100)] []
   = Inr [Failure \<lparr>api_f = ''webgl'', scenario_f = ''A'', count_f = 1,
                   error_f = ''All runs failed''\<rparr>,
          Aggregate \<lparr>api_a = ''webgpu'', scenario_a = ''B'', count_a = 100,
                   runsSuccessful = 1, meanFps = 60, stdFps = 0, meanFrameTime_a = 16,
                   stdFrameTime_a = 0, meanP95FrameTime = 18, meanCpuTime_a = 2,
                   meanGpuTime_a = 0, meanInitTime = 40\<rparr>]
 \<and> csv_row (Failure \<lparr>api_f = ''webgl'', scenario_f = ''A'', count_f = 1,
                   error_f = ''All runs failed''\<rparr>)
   = Inr [Text ''webgl'', Text ''A'', Count 1,
          Blank, Blank, Blank, Blank, Blank, Blank, Blank, Blank, Text ''All runs failed'']
 \<and> entry_runsSuccessful (aggregate_runs ''webgpu'' ''B'' 100
      [\<lparr>fps_r = 60, meanFrameTime_r = 16, stdFrameTime_r = 1, p95FrameTime_r = 18,
          meanCpuTime_r = 2, meanGpuTime_r = 0, initTime_r = 40\<rparr>]) = Some 1"
proof -
  let ?env = "\<lambda>p k. if p = (''webgl'', ''A'', 1::int) then Rejected ''Timeout (120s)''
                 else if k = (1::nat) then Resolved \<lparr>fps_t = 60, meanFrameTime_t = 16,
                        stdFrameTime_t = 1, p95FrameTime_t = 18, meanCpuTime_t = 2,
                        meanGpuTime_t = None, initTime_t = 40\<rparr>
                 else Rejected ''Timeout (120s)''"
  let ?ps = "[(''webgl'', ''A'', 1::int), (''webgpu'', ''B'', 100)]"
  have nav: "\<forall>p\<in>set ?ps. \<forall>k\<in>{1..2::nat}. \<forall>e. ?env p k \<noteq> NavigationFailed e"
    by simp
  have rej: "\<forall>k\<in>{1..2::nat}. \<exists>e. ?env (''webgl'', ''A'', 1) k = Rejected e"
    by simp
  have r2: "successful_runs (?env (''webgpu'', ''B'', 100)) [1 ..< 2 + 1]
      = [\<lparr>fps_r = 60, meanFrameTime_r = 16, stdFrameTime_r = 1, p95FrameTime_r = 18,
          meanCpuTime_r = 2, meanGpuTime_r = 0, initTime_r = 40\<rparr>]"
    by (simp add: successful_runs_def upt_rec record_run_def)
  have agg: "aggregate_runs ''webgpu'' ''B'' 100
      [\<lparr>fps_r = 60, meanFrameTime_r = 16, stdFrameTime_r = 1, p95FrameTime_r = 18,
          meanCpuTime_r = 2, meanGpuTime_r = 0, initTime_r = 40\<rparr>]
      = Aggregate \<lparr>api_a = ''webgpu'', scenario_a = ''B'', count_a = 100,
                   runsSuccessful = 1, meanFps = 60, stdFps = 0, meanFrameTime_a = 16,
                   stdFrameTime_a = 0, meanP95FrameTime = 18, meanCpuTime_a = 2,
                   meanGpuTime_a = 0, meanInitTime = 40\<rparr>"
    by (simp add: aggregate_runs_def getMean_def getStdDev_def)
  from all_failed_point_is_marked_and_sweep_continues[where env = ?env and n = 2 and ps = ?ps
      and api = "''webgl''" and scenario = "''A''" and count' = 1 and runs = "[]"]
    nav rej
  have "sweep ?env 2 ?ps [] =
        Inr (map (\<lambda>p. aggregate_runs (fst p) (fst (snd p)) (snd (snd p))
               (successful_runs (?env p) [1 ..< 2 + 1])) ?ps)"
    and "successful_runs (?env (''webgl'', ''A'', 1)) [1 ..< 2 + 1] = []"
    and "aggregate_runs ''webgl'' ''A'' 1 [] =
      Failure \<lparr>api_f = ''webgl'', scenario_f = ''A'', count_f = 1,
               error_f = ''All runs failed''\<rparr>"
    and "csv_row (aggregate_runs ''webgl'' ''A'' 1 []) =
      Inr [Text ''webgl'', Text ''A'', Count 1,
           Blank, Blank, Blank, Blank, Blank, Blank, Blank, Blank, Text ''All runs failed'']"
    by blast+
  moreover
  from all_failed_point_is_marked_and_sweep_continues[where env = ?env and n = 2 and ps = ?ps
      and api = "''webgpu''" and scenario = "''B''" and count' = 100
      and runs = "[\<lparr>fps_r = 60, meanFrameTime_r = 16, stdFrameTime_r = 1, p95FrameTime_r = 18,
          meanCpuTime_r = 2, meanGpuTime_r = 0, initTime_r = 40\<rparr>]"]
  have "entry_runsSuccessful (aggregate_runs ''webgpu'' ''B'' 100
      [\<lparr>fps_r = 60, meanFrameTime_r = 16, stdFrameTime_r = 1, p95FrameTime_r = 18,
          meanCpuTime_r = 2, meanGpuTime_r = 0, initTime_r = 40\<rparr>]) = Some 1"
    by simp
  ultimately show ?thesis using r2 agg by (simp del: upt_Suc)
qed

end
